theory Spec2Isabelle
  imports Main "HOL-Library.Char_ord" "HOL-Library.List_Lexorder"
begin

section \<open>JavaScript values that the node handles\<close>

text \<open>
  This theory models src/nodes/AgentIdToken.node.ts: the class \<^verbatim>\<open>TokenCache\<close> and the
  method \<^verbatim>\<open>execute\<close> with its closures \<^verbatim>\<open>request\<close> and \<^verbatim>\<open>getOrFetchToken\<close>. The
  repository holds a second variant of the node (node version 0.1.8) that keeps a debug log;
  it differs in what \<^verbatim>\<open>request\<close> throws, which is modelled too.

  The node is TypeScript; the casts \<^verbatim>\<open>as Promise<TokenResponse>\<close> and
  \<^verbatim>\<open>as string\<close> are not checked at run time, so a value typed \<^verbatim>\<open>string\<close>
  can be \<^verbatim>\<open>undefined\<close>, and \<^verbatim>\<open>TokenCache.get\<close> returns \<^verbatim>\<open>string | null\<close>.
  \<open>jsstring\<close> is such a value.
\<close>

datatype jsstring = JUndefined | JNull | JStr string

text \<open>The test \<^verbatim>\<open>if (v)\<close>: only a non-empty string is truthy.\<close>

fun truthy :: "jsstring \<Rightarrow> bool" where
  "truthy (JStr s) = (s \<noteq> [])"
| "truthy JUndefined = False"
| "truthy JNull = False"

text \<open>The conversion of a template literal, \<^verbatim>\<open>`${v}`\<close>.\<close>

fun template :: "jsstring \<Rightarrow> string" where
  "template (JStr s) = s"
| "template JUndefined = ''undefined''"
| "template JNull = ''null''"

text \<open>
  \<^verbatim>\<open>Record<string, string>\<close>: the properties of an object in insertion order. An object
  has each property name once, so a well-formed \<open>form\<close> has distinct names.
\<close>

type_synonym form = "(string \<times> jsstring) list"

text \<open>
  \<^verbatim>\<open>Object.keys\<close>. The order in which JavaScript lists the names does not matter
  here: the only use sorts the result.
\<close>

definition Object_keys :: "form \<Rightarrow> string list" where
  "Object_keys params = map fst params"

text \<open>\<^verbatim>\<open>params[key]\<close>\<close>

definition prop_of :: "form \<Rightarrow> string \<Rightarrow> jsstring" where
  "prop_of params key = (case map_of params key of Some v \<Rightarrow> v | None \<Rightarrow> JUndefined)"

text \<open>\<^verbatim>\<open>Array.prototype.join\<close>\<close>

fun join :: "string \<Rightarrow> string list \<Rightarrow> string" where
  "join sep [] = []"
| "join sep [x] = x"
| "join sep (x # y # ys) = x @ sep @ join sep (y # ys)"

section \<open>TokenCache\<close>

record CachedToken =
  token :: jsstring
  expiresAt :: int

type_synonym cache = "string \<rightharpoonup> CachedToken"

definition EXPIRY_BUFFER :: int where
  "EXPIRY_BUFFER = 180"

text \<open>
  \<^verbatim>\<open>Object.keys(params).sort().map(key => `${key}=${params[key]}`).join('&')\<close>, after the
  prefix and a colon. \<^verbatim>\<open>sort()\<close> without a comparator orders strings by their code units,
  which is the lexicographic order of \<open>string\<close>.
\<close>

definition generateKey :: "string \<Rightarrow> form \<Rightarrow> string" where
  "generateKey prefix params =
     (let sortedParams =
        join ''&'' (map (\<lambda>key. key @ ''='' @ template (prop_of params key))
                        (sort (Object_keys params)))
      in prefix @ '':'' @ sortedParams)"

text \<open>
  \<open>now\<close> is what \<^verbatim>\<open>Date.now()\<close> returns (milliseconds); \<open>get\<close> reads it only when
  the key has an entry. The result is the returned value and the cache afterwards.
\<close>

definition TokenCache_get :: "int \<Rightarrow> string \<Rightarrow> form \<Rightarrow> cache \<Rightarrow> jsstring \<times> cache" where
  "TokenCache_get now prefix params c =
     (let key = generateKey prefix params in
      case c key of
        None \<Rightarrow> (JNull, c)
      | Some cached \<Rightarrow>
          if expiresAt cached \<le> now then (JNull, c(key := None))
          else (token cached, c))"

definition TokenCache_set :: "int \<Rightarrow> string \<Rightarrow> form \<Rightarrow> jsstring \<Rightarrow> int \<Rightarrow> cache \<Rightarrow> cache" where
  "TokenCache_set now prefix params tok expiresIn c =
     (let key = generateKey prefix params;
          expiresAt = now + ((expiresIn - EXPIRY_BUFFER) * 1000)
      in c(key \<mapsto> \<lparr>token = tok, expiresAt = expiresAt\<rparr>))"

definition TokenCache_clear :: "cache \<Rightarrow> cache" where
  "TokenCache_clear c = Map.empty"

section \<open>The host: clock, form encoding, HTTP helper\<close>

record IHttpRequestOptions =
  opt_method :: string
  opt_url :: string
  opt_headers :: "(string \<times> string) list"
  opt_body :: string

text \<open>
  The parsed body of a successful exchange. \<open>access_token\<close> is \<open>JUndefined\<close> when
  the body has no such field, \<open>expires_in\<close> is \<open>None\<close> when it is absent. Lifetimes
  are whole seconds and the clock counts whole milliseconds, so both are integers.
\<close>

record TokenResponse =
  access_token :: jsstring
  expires_in :: "int option"

text \<open>
  What \<^verbatim>\<open>httpRequest\<close> throws: an object that may carry the HTTP response and a
  message. A payload is a string, or another value, which is kept as the text that
  \<^verbatim>\<open>JSON.stringify\<close> gives for it.
\<close>

datatype payload = Text string | Json string

record http_response =
  resp_data :: "payload option"
  resp_body :: "payload option"
  resp_status :: "nat option"
  resp_statusCode :: "nat option"

record http_error =
  err_response :: "http_response option"
  err_message :: "string option"

text \<open>
  \<open>now_at h n\<close> is the value of the \<open>n\<close>-th call of \<^verbatim>\<open>Date.now()\<close>,
  \<open>encodeBody h\<close> is \<^verbatim>\<open>new URLSearchParams(form).toString()\<close>, and
  \<open>httpRequest h n\<close> is the outcome of the \<open>n\<close>-th request: \<open>Inl\<close> what it throws
  (as it does on a status outside 200-299), \<open>Inr\<close> the parsed body.
\<close>

record host =
  now_at :: "nat \<Rightarrow> int"
  encodeBody :: "form \<Rightarrow> string"
  httpRequest :: "nat \<Rightarrow> IHttpRequestOptions \<Rightarrow> http_error + TokenResponse"

record credentials =
  tokenEndpoint :: string
  blueprintId :: string
  blueprintSecret :: string
  agentId :: string
  agentUser :: string
  scope :: "string option"

text \<open>
  The state that outlives a call: the module-level \<^verbatim>\<open>tokenCache\<close>, the number of
  clock readings taken so far and the requests issued so far, oldest first.
\<close>

record world =
  tokenCache :: cache
  reads :: nat
  sent :: "IHttpRequestOptions list"

definition Date_now :: "host \<Rightarrow> world \<Rightarrow> int \<times> world" where
  "Date_now h w = (now_at h (reads w), w\<lparr>reads := Suc (reads w)\<rparr>)"

text \<open>\<^verbatim>\<open>tokenCache.get\<close> and \<^verbatim>\<open>tokenCache.set\<close> on the world, with their clock readings.\<close>

definition tokenCache_get :: "host \<Rightarrow> string \<Rightarrow> form \<Rightarrow> world \<Rightarrow> jsstring \<times> world" where
  "tokenCache_get h prefix params w =
     (let (r, c') = TokenCache_get (now_at h (reads w)) prefix params (tokenCache w)
      in (r, w\<lparr>tokenCache := c',
                reads := (if tokenCache w (generateKey prefix params) = None then reads w
                          else Suc (reads w))\<rparr>))"

definition tokenCache_set :: "host \<Rightarrow> string \<Rightarrow> form \<Rightarrow> jsstring \<Rightarrow> int \<Rightarrow> world \<Rightarrow> world" where
  "tokenCache_set h prefix params tok expiresIn w =
     w\<lparr>tokenCache := TokenCache_set (now_at h (reads w)) prefix params tok expiresIn (tokenCache w),
       reads := Suc (reads w)\<rparr>"

section \<open>The token requests\<close>

definition DEFAULT_SCOPE :: string where
  "DEFAULT_SCOPE = ''api://AzureADTokenExchange/.default''"

text \<open>
  The \<^verbatim>\<open>options\<close> that \<^verbatim>\<open>request\<close> builds, and \<^verbatim>\<open>request\<close> of
  AgentIdToken.node.ts (node version 0.1.6): whatever the helper throws propagates.
\<close>

definition request_options :: "host \<Rightarrow> string \<Rightarrow> form \<Rightarrow> IHttpRequestOptions" where
  "request_options h endpoint form =
     \<lparr>opt_method = ''POST'', opt_url = endpoint,
      opt_headers = [(''Content-Type'', ''application/x-www-form-urlencoded'')],
      opt_body = encodeBody h form\<rparr>"

definition request :: "host \<Rightarrow> string \<Rightarrow> form \<Rightarrow> world \<Rightarrow> (http_error + TokenResponse) \<times> world" where
  "request h endpoint form w =
     (let options = request_options h endpoint form
      in (httpRequest h (length (sent w)) options, w\<lparr>sent := sent w @ [options]\<rparr>))"

text \<open>Decimal digits of a number, as a template literal prints it.\<close>

fun decimal :: "nat \<Rightarrow> string" where
  "decimal n = (if n < 10 then [char_of (48 + n)]
                else decimal (n div 10) @ [char_of (48 + n mod 10)])"

declare decimal.simps [simp del]

definition render :: "payload \<Rightarrow> string" where
  "render p = (case p of Text s \<Rightarrow> s | Json j \<Rightarrow> j)"

text \<open>
  The catch block of \<^verbatim>\<open>request\<close> in the variant with a debug log (node version 0.1.8):
  \<^verbatim>\<open>response?.data ?? response?.body ?? message ?? 'unknown error'\<close>,
  \<^verbatim>\<open>response?.status ?? response?.statusCode ?? 'N/A'\<close>, and the message built from them.
\<close>

definition responseBody :: "http_error \<Rightarrow> payload" where
  "responseBody err =
     (case Option.bind (err_response err) resp_data of Some d \<Rightarrow> d
      | None \<Rightarrow> (case Option.bind (err_response err) resp_body of Some b \<Rightarrow> b
      | None \<Rightarrow> (case err_message err of Some m \<Rightarrow> Text m
      | None \<Rightarrow> Text ''unknown error'')))"

definition statusCode :: "http_error \<Rightarrow> string" where
  "statusCode err =
     (case Option.bind (err_response err) resp_status of Some s \<Rightarrow> decimal s
      | None \<Rightarrow> (case Option.bind (err_response err) resp_statusCode of Some s \<Rightarrow> decimal s
      | None \<Rightarrow> ''N/A''))"

definition enrichedMsg :: "string \<Rightarrow> http_error \<Rightarrow> string" where
  "enrichedMsg stepName err =
     ''['' @ stepName @ ''] HTTP '' @ statusCode err @ '': '' @ render (responseBody err)"

definition request_debug ::
  "host \<Rightarrow> string \<Rightarrow> string \<Rightarrow> form \<Rightarrow> world \<Rightarrow> (http_error + TokenResponse) \<times> world" where
  "request_debug h endpoint stepName form w =
     (case request h endpoint form w of
        (Inr resp, w') \<Rightarrow> (Inr resp, w')
      | (Inl err, w') \<Rightarrow>
          (Inl \<lparr>err_response = None, err_message = Some (enrichedMsg stepName err)\<rparr>, w'))"

section \<open>getOrFetchToken and execute\<close>

record cacheStats =
  hits :: nat
  misses :: nat
  timings :: "(string \<times> int) list"

text \<open>\<^verbatim>\<open>timings[name] = v\<close>\<close>

fun assign :: "string \<Rightarrow> int \<Rightarrow> (string \<times> int) list \<Rightarrow> (string \<times> int) list" where
  "assign k v [] = [(k, v)]"
| "assign k v ((k', v') # ps) = (if k = k' then (k, v) # ps else (k', v') # assign k v ps)"

text \<open>\<^verbatim>\<open>response.expires_in || defaultExpiry\<close>\<close>

definition or_default :: "int option \<Rightarrow> int \<Rightarrow> int" where
  "or_default v d = (case v of None \<Rightarrow> d | Some n \<Rightarrow> if n = 0 then d else n)"

text \<open>
  \<^verbatim>\<open>getOrFetchToken\<close> is a closure over \<^verbatim>\<open>request\<close>, \<^verbatim>\<open>cacheStats\<close> and the
  cache; here they are arguments. A rejected promise is \<open>Inl\<close>. The parameter
  \<^verbatim>\<open>defaultExpiry\<close> has the default 3600, and no call gives another value.
\<close>

definition getOrFetchToken ::
  "host \<Rightarrow> (form \<Rightarrow> world \<Rightarrow> (http_error + TokenResponse) \<times> world) \<Rightarrow>
   string \<Rightarrow> form \<Rightarrow> int \<Rightarrow> cacheStats \<Rightarrow> world \<Rightarrow>
   (http_error + jsstring) \<times> cacheStats \<times> world" where
  "getOrFetchToken h req cachePrefix form defaultExpiry stats w =
     (let (cachedToken, w1) = tokenCache_get h cachePrefix form w in
      if truthy cachedToken then
        (Inr cachedToken,
         stats\<lparr>hits := hits stats + 1, timings := assign cachePrefix 0 (timings stats)\<rparr>, w1)
      else
        let stats1 = stats\<lparr>misses := misses stats + 1\<rparr>;
            (startTime, w2) = Date_now h w1;
            (result, w3) = req form w2
        in case result of
             Inl err \<Rightarrow> (Inl err, stats1, w3)
           | Inr response \<Rightarrow>
               let (endTime, w4) = Date_now h w3;
                   elapsed = endTime - startTime;
                   expiresIn = or_default (expires_in response) defaultExpiry;
                   stats2 = stats1\<lparr>timings := assign cachePrefix elapsed (timings stats1)\<rparr>;
                   w5 = tokenCache_set h cachePrefix form (access_token response) expiresIn w4
               in (Inr (access_token response), stats2, w5))"

definition jwt_bearer :: string where
  "jwt_bearer = ''urn:ietf:params:oauth:client-assertion-type:jwt-bearer''"

definition blueprintForm :: "credentials \<Rightarrow> form" where
  "blueprintForm creds =
     [(''grant_type'', JStr ''client_credentials''),
      (''client_id'', JStr (blueprintId creds)),
      (''client_secret'', JStr (blueprintSecret creds)),
      (''scope'', JStr DEFAULT_SCOPE),
      (''fmi_path'', JStr (agentId creds))]"

definition agentFicForm :: "credentials \<Rightarrow> jsstring \<Rightarrow> form" where
  "agentFicForm creds blueprintFic =
     [(''grant_type'', JStr ''client_credentials''),
      (''client_id'', JStr (agentId creds)),
      (''scope'', JStr DEFAULT_SCOPE),
      (''client_assertion'', blueprintFic),
      (''client_assertion_type'', JStr jwt_bearer)]"

definition userTokenForm :: "credentials \<Rightarrow> string \<Rightarrow> jsstring \<Rightarrow> jsstring \<Rightarrow> form" where
  "userTokenForm creds userScope blueprintFic agentidFic =
     [(''grant_type'', JStr ''user_fic''),
      (''requested_token_use'', JStr ''on_behalf_of''),
      (''client_id'', JStr (agentId creds)),
      (''client_assertion'', blueprintFic),
      (''client_assertion_type'', JStr jwt_bearer),
      (''username'', JStr (agentUser creds)),
      (''user_federated_identity_credential'', agentidFic),
      (''scope'', JStr userScope)]"

text \<open>\<^verbatim>\<open>(credentials.scope as string | undefined) || DEFAULT_SCOPE\<close>\<close>

definition userScope_of :: "credentials \<Rightarrow> string" where
  "userScope_of creds =
     (case scope creds of None \<Rightarrow> DEFAULT_SCOPE | Some s \<Rightarrow> if s = [] then DEFAULT_SCOPE else s)"

record returnItem =
  out_access_token :: jsstring
  blueprint_token :: jsstring
  agent_token :: jsstring
  out_scope :: string
  node_version :: string
  cache_hits :: nat
  cache_misses :: nat
  fetch_times_ms :: "(string \<times> int) list"
  total_fetch_time_ms :: int

text \<open>
  The body of the loop of \<^verbatim>\<open>execute\<close>: the three steps in order, each awaited, so
  that a failing step ends the call with its error. \<open>req stepName\<close> is the
  \<^verbatim>\<open>request\<close> closure of the variant as the step named \<open>stepName\<close> calls it.
\<close>

definition execute_item ::
  "host \<Rightarrow> (string \<Rightarrow> form \<Rightarrow> world \<Rightarrow> (http_error + TokenResponse) \<times> world) \<Rightarrow> string \<Rightarrow>
   credentials \<Rightarrow> cacheStats \<Rightarrow> world \<Rightarrow> (http_error + returnItem) \<times> cacheStats \<times> world" where
  "execute_item h req version creds stats w =
     (let userScope = userScope_of creds in
      case getOrFetchToken h (req ''blueprint'') ''blueprint'' (blueprintForm creds) 3600 stats w of
        (Inl err, stats1, w1) \<Rightarrow> (Inl err, stats1, w1)
      | (Inr blueprintFic, stats1, w1) \<Rightarrow>
      (case getOrFetchToken h (req ''agentFic'') ''agentFic''
              (agentFicForm creds blueprintFic) 3600 stats1 w1 of
        (Inl err, stats2, w2) \<Rightarrow> (Inl err, stats2, w2)
      | (Inr agentidFic, stats2, w2) \<Rightarrow>
      (case getOrFetchToken h (req ''userToken'') ''userToken''
              (userTokenForm creds userScope blueprintFic agentidFic) 3600 stats2 w2 of
        (Inl err, stats3, w3) \<Rightarrow> (Inl err, stats3, w3)
      | (Inr userToken, stats3, w3) \<Rightarrow>
          (Inr \<lparr>out_access_token = userToken,
                blueprint_token = blueprintFic,
                agent_token = agentidFic,
                out_scope = userScope,
                node_version = version,
                cache_hits = hits stats3,
                cache_misses = misses stats3,
                fetch_times_ms = timings stats3,
                total_fetch_time_ms = sum_list (map snd (timings stats3))\<rparr>,
           stats3, w3))))"

text \<open>
  The loop over the input items (\<open>n\<close> of them are left). \<^verbatim>\<open>cacheStats\<close> is created
  once per call of \<^verbatim>\<open>execute\<close>, before the loop. An error ends the call: the items
  collected so far are dropped, the cache keeps what was stored.
\<close>

fun execute_loop ::
  "host \<Rightarrow> (string \<Rightarrow> form \<Rightarrow> world \<Rightarrow> (http_error + TokenResponse) \<times> world) \<Rightarrow> string \<Rightarrow>
   credentials \<Rightarrow> nat \<Rightarrow> returnItem list \<Rightarrow> cacheStats \<Rightarrow> world \<Rightarrow>
   (http_error + returnItem list \<times> cacheStats) \<times> world" where
  "execute_loop h req version creds 0 returnData stats w = (Inr (returnData, stats), w)"
| "execute_loop h req version creds (Suc n) returnData stats w =
     (case execute_item h req version creds stats w of
        (Inl err, stats', w') \<Rightarrow> (Inl err, w')
      | (Inr item, stats', w') \<Rightarrow>
          execute_loop h req version creds n (returnData @ [item]) stats' w')"

text \<open>
  Every item holds the same \<^verbatim>\<open>cacheStats.timings\<close> object in \<^verbatim>\<open>fetch_times_ms\<close>, so
  what the caller reads there is its final content.
\<close>

definition execute_with ::
  "host \<Rightarrow> (string \<Rightarrow> form \<Rightarrow> world \<Rightarrow> (http_error + TokenResponse) \<times> world) \<Rightarrow> string \<Rightarrow>
   credentials \<Rightarrow> nat \<Rightarrow> world \<Rightarrow> (http_error + returnItem list) \<times> world" where
  "execute_with h req version creds items w =
     (case execute_loop h req version creds items []
             \<lparr>hits = 0, misses = 0, timings = []\<rparr> w of
        (Inl err, w') \<Rightarrow> (Inl err, w')
      | (Inr (returnData, stats), w') \<Rightarrow>
          (Inr (map (\<lambda>item. item\<lparr>fetch_times_ms := timings stats\<rparr>) returnData), w'))"

text \<open>\<^verbatim>\<open>execute\<close> of AgentIdToken.node.ts, on \<open>items\<close> input items.\<close>

definition execute :: "host \<Rightarrow> credentials \<Rightarrow> nat \<Rightarrow> world \<Rightarrow> (http_error + returnItem list) \<times> world" where
  "execute h creds items w =
     execute_with h (\<lambda>stepName. request h (tokenEndpoint creds)) ''0.1.6'' creds items w"

text \<open>
  \<^verbatim>\<open>execute\<close> of the variant with a debug log. The log lines and the \<^verbatim>\<open>debug_log\<close>
  field are left out; its \<^verbatim>\<open>catch\<close> around the last step rethrows the error.
\<close>

definition execute_debug :: "host \<Rightarrow> credentials \<Rightarrow> nat \<Rightarrow> world \<Rightarrow> (http_error + returnItem list) \<times> world" where
  "execute_debug h creds items w =
     execute_with h (request_debug h (tokenEndpoint creds)) ''0.1.8'' creds items w"

definition cold :: world where
  "cold = \<lparr>tokenCache = Map.empty, reads = 0, sent = []\<rparr>"

section \<open>Notions used to state the results\<close>

text \<open>The three prefixes that \<^verbatim>\<open>execute\<close> passes to \<^verbatim>\<open>getOrFetchToken\<close>.\<close>

definition token_kinds :: "string list" where
  "token_kinds = [''blueprint'', ''agentFic'', ''userToken'']"

text \<open>A call on the cache, and whether it is a \<^verbatim>\<open>set\<close> that writes a given key.\<close>

datatype cache_op =
    Get int string form
  | Set int string form jsstring int
  | Clear

fun apply_op :: "cache \<Rightarrow> cache_op \<Rightarrow> cache" where
  "apply_op c (Get now prefix params) = snd (TokenCache_get now prefix params c)"
| "apply_op c (Set now prefix params tok expiresIn) =
     TokenCache_set now prefix params tok expiresIn c"
| "apply_op c Clear = TokenCache_clear c"

fun sets_key :: "string \<Rightarrow> cache_op \<Rightarrow> bool" where
  "sets_key key (Set now prefix params tok expiresIn) = (generateKey prefix params = key)"
| "sets_key key (Get now prefix params) = False"
| "sets_key key Clear = False"

text \<open>
  The entry that a step stores for a response when \<^verbatim>\<open>tokenCache.set\<close> reads the clock for
  the \<open>n\<close>-th time, the world after a step that finds no usable entry and fetches, and the
  statistics after a miss and after a hit.
\<close>

definition entry_for :: "host \<Rightarrow> nat \<Rightarrow> int \<Rightarrow> TokenResponse \<Rightarrow> CachedToken" where
  "entry_for h n d response =
     \<lparr>token = access_token response,
      expiresAt = now_at h n + (or_default (expires_in response) d - EXPIRY_BUFFER) * 1000\<rparr>"

definition fetched ::
  "host \<Rightarrow> string \<Rightarrow> string \<Rightarrow> form \<Rightarrow> int \<Rightarrow> TokenResponse \<Rightarrow> world \<Rightarrow> world" where
  "fetched h endpoint kind form d response w =
     \<lparr>tokenCache = (tokenCache w)(generateKey kind form \<mapsto> entry_for h (reads w + 2) d response),
      reads = reads w + 3,
      sent = sent w @ [request_options h endpoint form]\<rparr>"

definition missed :: "host \<Rightarrow> string \<Rightarrow> world \<Rightarrow> cacheStats \<Rightarrow> cacheStats" where
  "missed h kind w stats =
     stats\<lparr>misses := misses stats + 1,
           timings := assign kind (now_at h (Suc (reads w)) - now_at h (reads w)) (timings stats)\<rparr>"

definition hit :: "string \<Rightarrow> cacheStats \<Rightarrow> cacheStats" where
  "hit kind stats = stats\<lparr>hits := hits stats + 1, timings := assign kind 0 (timings stats)\<rparr>"

definition after_cold_run ::
  "host \<Rightarrow> credentials \<Rightarrow> TokenResponse \<Rightarrow> TokenResponse \<Rightarrow> TokenResponse \<Rightarrow> world \<Rightarrow> world" where
  "after_cold_run h creds r1 r2 r3 w =
     fetched h (tokenEndpoint creds) ''userToken''
       (userTokenForm creds (userScope_of creds) (access_token r1) (access_token r2)) 3600 r3
       (fetched h (tokenEndpoint creds) ''agentFic'' (agentFicForm creds (access_token r1)) 3600 r2
          (fetched h (tokenEndpoint creds) ''blueprint'' (blueprintForm creds) 3600 r1 w))"

subsection \<open>A concrete host\<close>

text \<open>
  Credentials and a host for concrete runs: the clock advances by one millisecond per
  reading, the body is the form written out without escaping, and the endpoint gives the
  listed answers in order, then fails.
\<close>

definition creds_ex :: credentials where
  "creds_ex = \<lparr>tokenEndpoint = ''https://login.example/token'', blueprintId = ''B1'',
               blueprintSecret = ''S1'', agentId = ''A1'', agentUser = ''U1'', scope = None\<rparr>"

definition unauthorized :: http_error where
  "unauthorized =
     \<lparr>err_response = Some \<lparr>resp_data = Some (Text ''invalid_client''), resp_body = None,
                            resp_status = Some 401, resp_statusCode = None\<rparr>,
      err_message = Some ''Request failed with status code 401''\<rparr>"

definition plain_body :: "form \<Rightarrow> string" where
  "plain_body form = join ''&'' (map (\<lambda>(name, v). name @ ''='' @ template v) form)"

definition answer ::
  "(http_error + TokenResponse) list \<Rightarrow> nat \<Rightarrow> IHttpRequestOptions \<Rightarrow> http_error + TokenResponse" where
  "answer answers n options =
     (if n < length answers then answers ! n
      else Inl \<lparr>err_response = None, err_message = Some ''socket hang up''\<rparr>)"

definition host_ex :: "(http_error + TokenResponse) list \<Rightarrow> host" where
  "host_ex answers = \<lparr>now_at = int, encodeBody = plain_body, httpRequest = answer answers\<rparr>"

definition ok_answer :: "string \<Rightarrow> int \<Rightarrow> http_error + TokenResponse" where
  "ok_answer s lifetime = Inr \<lparr>access_token = JStr s, expires_in = Some lifetime\<rparr>"

text \<open>
  A host whose endpoint answers the \<^verbatim>\<open>blueprint\<close> request with the empty string as
  \<open>access_token\<close>, and a world whose cache holds an expired entry under the key that the
  \<^verbatim>\<open>agentFic\<close> step uses once the \<^verbatim>\<open>blueprint\<close> token is \<open>tok1\<close>.
\<close>

definition empty_token_host :: host where
  "empty_token_host =
     host_ex [ok_answer '''' 3600, ok_answer ''tok2'' 3600, ok_answer ''tok3'' 3600,
              ok_answer '''' 3600]"

definition stale_agentFic :: world where
  "stale_agentFic =
     \<lparr>tokenCache = [generateKey ''agentFic'' (agentFicForm creds_ex (JStr ''tok1''))
                      \<mapsto> \<lparr>token = JStr ''old'', expiresAt = 1\<rparr>],
      reads = 0, sent = []\<rparr>"

section \<open>Cache keys\<close>

text \<open>The three forms of the chain are well-formed: no name occurs twice.\<close>

lemma forms_distinct:
  "distinct (map fst (blueprintForm creds))"
  "distinct (map fst (agentFicForm creds blueprintFic))"
  "distinct (map fst (userTokenForm creds userScope blueprintFic agentidFic))"
  by (simp_all add: blueprintForm_def agentFicForm_def userTokenForm_def)

lemma sorted_keys_eq:
  assumes "distinct (map fst ps)" and "distinct (map fst qs)" and "set ps = set qs"
  shows "sort (Object_keys ps) = sort (Object_keys qs)"
proof -
  have "sort (map fst ps) = sorted_list_of_set (set (map fst ps))"
    using assms(1) by (metis sorted_list_of_set_sort_remdups distinct_remdups_id)
  also have "\<dots> = sorted_list_of_set (set (map fst qs))"
    using assms(3) by simp
  also have "\<dots> = sort (map fst qs)"
    using assms(2) by (metis sorted_list_of_set_sort_remdups distinct_remdups_id)
  finally show ?thesis by (simp add: Object_keys_def)
qed

lemma prop_of_eq:
  assumes "distinct (map fst ps)" and "distinct (map fst qs)" and "set ps = set qs"
  shows "prop_of ps = prop_of qs"
proof -
  have "map_of ps = map_of qs"
    using assms by (simp add: map_of_inject_set)
  then show ?thesis by (simp add: prop_of_def fun_eq_iff)
qed

text \<open>
  C3. Two well-formed parameter objects (each name once) with the same name/value pairs,
  in whatever insertion order, get the same key under every kind, so \<open>get\<close> and \<open>set\<close>
  do the same on both: they address the same slot.
\<close>

theorem C3_key_order_independent:
  assumes "distinct (map fst ps)" and "distinct (map fst qs)" and "set ps = set qs"
  shows "generateKey kind ps = generateKey kind qs
       \<and> TokenCache_get now kind ps c = TokenCache_get now kind qs c
       \<and> TokenCache_set now kind ps t e c = TokenCache_set now kind qs t e c"
proof -
  have k: "generateKey kind ps = generateKey kind qs"
    using sorted_keys_eq [OF assms] prop_of_eq [OF assms] by (simp add: generateKey_def)
  show ?thesis
    using k by (simp add: TokenCache_get_def TokenCache_set_def)
qed

text \<open>The example of the specification: \<^verbatim>\<open>{a:1,b:2}\<close> and \<^verbatim>\<open>{b:2,a:1}\<close>.\<close>

theorem C3_key_order_independent_witness:
  "distinct (map fst [(''a'', JStr ''1''), (''b'', JStr ''2'')])
   \<and> distinct (map fst [(''b'', JStr ''2''), (''a'', JStr ''1'')])
   \<and> set [(''a'', JStr ''1''), (''b'', JStr ''2'')] = set [(''b'', JStr ''2''), (''a'', JStr ''1'')]
   \<and> generateKey ''blueprint'' [(''a'', JStr ''1''), (''b'', JStr ''2'')] = ''blueprint:a=1&b=2''
   \<and> generateKey ''blueprint'' [(''b'', JStr ''2''), (''a'', JStr ''1'')] = ''blueprint:a=1&b=2''
   \<and> TokenCache_get 5 ''blueprint'' [(''a'', JStr ''1''), (''b'', JStr ''2'')] Map.empty
     = TokenCache_get 5 ''blueprint'' [(''b'', JStr ''2''), (''a'', JStr ''1'')] Map.empty"
proof -
  have d1: "distinct (map fst [(''a'', JStr ''1''), (''b'', JStr ''2'')])" by simp
  have d2: "distinct (map fst [(''b'', JStr ''2''), (''a'', JStr ''1'')])" by simp
  have s: "set [(''a'', JStr ''1''), (''b'', JStr ''2'')] = set [(''b'', JStr ''2''), (''a'', JStr ''1'')]"
    by auto
  have k: "generateKey ''blueprint'' [(''a'', JStr ''1''), (''b'', JStr ''2'')] = ''blueprint:a=1&b=2''"
    by (simp add: generateKey_def Object_keys_def prop_of_def)
  show ?thesis
    using C3_key_order_independent [OF d1 d2 s, of "''blueprint''" 5 Map.empty] d1 d2 s k
    by simp
qed

lemma kinds_keys_differ:
  assumes "kind \<in> set token_kinds" and "kind' \<in> set token_kinds" and "kind \<noteq> kind'"
  shows "generateKey kind ps \<noteq> generateKey kind' qs"
proof
  assume "generateKey kind ps = generateKey kind' qs"
  then have "hd (generateKey kind ps) = hd (generateKey kind' qs)" by simp
  then show False
    using assms by (auto simp: generateKey_def token_kinds_def)
qed

lemma step_keys_differ:
  "generateKey ''blueprint'' ps \<noteq> generateKey ''agentFic'' qs"
  "generateKey ''blueprint'' ps \<noteq> generateKey ''userToken'' qs"
  "generateKey ''agentFic'' ps \<noteq> generateKey ''userToken'' qs"
  "generateKey ''agentFic'' ps \<noteq> generateKey ''blueprint'' qs"
  "generateKey ''userToken'' ps \<noteq> generateKey ''blueprint'' qs"
  "generateKey ''userToken'' ps \<noteq> generateKey ''agentFic'' qs"
  by (rule kinds_keys_differ; simp add: token_kinds_def)+

section \<open>Expiry in TokenCache\<close>

text \<open>
  C4. \<open>set\<close> stores the token with \<open>expiresAt = now + (expiresIn - 180) * 1000\<close>. When
  \<open>expiresIn \<le> 180\<close> that instant is not after \<open>now\<close>, and the next \<open>get\<close> for the key
  (at a clock reading \<open>now'\<close> that is not before \<open>now\<close>) returns \<^verbatim>\<open>null\<close> and deletes
  the entry.
\<close>

theorem C4_set_expiry:
  "TokenCache_set now kind ps t e c (generateKey kind ps)
       = Some \<lparr>token = t, expiresAt = now + (e - 180) * 1000\<rparr>
   \<and> (e \<le> 180 \<longrightarrow> now + (e - 180) * 1000 \<le> now)
   \<and> (e \<le> 180 \<longrightarrow> now \<le> now' \<longrightarrow>
        TokenCache_get now' kind ps (TokenCache_set now kind ps t e c)
          = (JNull, (TokenCache_set now kind ps t e c)(generateKey kind ps := None)))"
proof -
  let ?c' = "TokenCache_set now kind ps t e c"
  have stored: "?c' (generateKey kind ps) = Some \<lparr>token = t, expiresAt = now + (e - 180) * 1000\<rparr>"
    by (simp add: TokenCache_set_def EXPIRY_BUFFER_def)
  have expired: "now + (e - 180) * 1000 \<le> now" if "e \<le> 180"
    using that by simp
  have evicted: "TokenCache_get now' kind ps ?c' = (JNull, ?c'(generateKey kind ps := None))"
    if "e \<le> 180" and "now \<le> now'"
  proof -
    have "now + (e - 180) * 1000 \<le> now'"
      using expired [OF that(1)] that(2) by linarith
    then show ?thesis
      using stored by (simp add: TokenCache_get_def)
  qed
  show ?thesis
    using stored expired evicted by blast
qed

theorem C4_set_expiry_witness:
  "TokenCache_set 1000 ''blueprint'' [] (JStr ''t'') 180 Map.empty (generateKey ''blueprint'' [])
       = Some \<lparr>token = JStr ''t'', expiresAt = 1000\<rparr>
   \<and> (180::int) \<le> 180 \<and> (1000::int) \<le> 1000
   \<and> TokenCache_get 1000 ''blueprint'' []
        (TokenCache_set 1000 ''blueprint'' [] (JStr ''t'') 180 Map.empty)
          = (JNull, Map.empty)"
  using C4_set_expiry [of 1000 "''blueprint''" "[]" "JStr ''t''" 180 Map.empty 1000]
  by (simp add: TokenCache_set_def EXPIRY_BUFFER_def)

lemma apply_op_absent:
  "c key = None \<Longrightarrow> \<not> sets_key key op \<Longrightarrow> apply_op c op key = None"
  by (cases op) (auto simp: TokenCache_get_def TokenCache_set_def TokenCache_clear_def Let_def
                      split: option.splits)

lemma apply_ops_absent:
  "c key = None \<Longrightarrow> \<forall>op \<in> set ops. \<not> sets_key key op \<Longrightarrow> foldl apply_op c ops key = None"
  by (induction ops arbitrary: c) (simp_all add: apply_op_absent)

lemma get_absent: "c (generateKey kind ps) = None \<Longrightarrow> TokenCache_get now kind ps c = (JNull, c)"
  by (simp add: TokenCache_get_def)

text \<open>
  C5. When the key of \<open>(kind, ps)\<close> holds an entry whose \<open>expiresAt\<close> is not after
  \<open>now\<close>, \<open>get\<close> deletes the entry and returns \<^verbatim>\<open>null\<close>, the value it returns when the
  key has no entry. After that, whatever calls are made on the cache other than a \<open>set\<close>
  that writes this key, and whatever the clock reads, \<open>get\<close> on the key returns
  \<^verbatim>\<open>null\<close>.
\<close>

theorem C5_expired_entry_evicted:
  assumes "c (generateKey kind ps) = Some entry" and "expiresAt entry \<le> now"
  shows "TokenCache_get now kind ps c = (JNull, c(generateKey kind ps := None))
       \<and> fst (TokenCache_get now kind ps c)
           = fst (TokenCache_get now kind ps (c(generateKey kind ps := None)))
       \<and> (\<forall>ops now'. (\<forall>op \<in> set ops. \<not> sets_key (generateKey kind ps) op) \<longrightarrow>
            fst (TokenCache_get now' kind ps
                   (foldl apply_op (snd (TokenCache_get now kind ps c)) ops)) = JNull)"
proof -
  let ?key = "generateKey kind ps"
  have g: "TokenCache_get now kind ps c = (JNull, c(?key := None))"
    using assms by (simp add: TokenCache_get_def)
  have m: "fst (TokenCache_get now kind ps (c(?key := None))) = JNull"
    by (simp add: get_absent)
  have later: "fst (TokenCache_get now' kind ps (foldl apply_op (c(?key := None)) ops)) = JNull"
    if "\<forall>op \<in> set ops. \<not> sets_key ?key op" for ops now'
  proof -
    have "foldl apply_op (c(?key := None)) ops ?key = None"
      using that by (intro apply_ops_absent) simp_all
    then show ?thesis by (simp add: get_absent)
  qed
  show ?thesis using g m later by simp
qed

text \<open>
  An entry that expires at 1000 is read at 1000: it is evicted, and stays absent through a
  later \<open>get\<close>, a \<open>set\<close> of another kind and a \<open>clear\<close>.
\<close>

theorem C5_expired_entry_evicted_witness:
  "[generateKey ''blueprint'' [] \<mapsto> \<lparr>token = JStr ''t'', expiresAt = 1000\<rparr>]
      (generateKey ''blueprint'' []) = Some \<lparr>token = JStr ''t'', expiresAt = 1000\<rparr>
   \<and> expiresAt \<lparr>token = JStr ''t'', expiresAt = 1000\<rparr> \<le> 1000
   \<and> TokenCache_get 1000 ''blueprint'' []
        [generateKey ''blueprint'' [] \<mapsto> \<lparr>token = JStr ''t'', expiresAt = 1000\<rparr>]
      = (JNull, Map.empty)
   \<and> fst (TokenCache_get 2000 ''blueprint'' []
        (foldl apply_op
           (snd (TokenCache_get 1000 ''blueprint'' []
              [generateKey ''blueprint'' [] \<mapsto> \<lparr>token = JStr ''t'', expiresAt = 1000\<rparr>]))
           [Get 1500 ''blueprint'' [], Set 1600 ''agentFic'' [] (JStr ''u'') 3600, Clear]))
      = JNull"
proof -
  let ?e = "\<lparr>token = JStr ''t'', expiresAt = 1000\<rparr>"
  let ?c = "[generateKey ''blueprint'' [] \<mapsto> ?e]"
  let ?ops = "[Get 1500 ''blueprint'' [], Set 1600 ''agentFic'' [] (JStr ''u'') 3600, Clear]"
  have h1: "?c (generateKey ''blueprint'' []) = Some ?e" by simp
  have h2: "expiresAt ?e \<le> 1000" by simp
  note t = C5_expired_entry_evicted [of ?c "''blueprint''" "[]" ?e 1000, OF h1 h2]
  have a: "TokenCache_get 1000 ''blueprint'' [] ?c = (JNull, Map.empty)"
    using t by simp
  have ok: "\<forall>op \<in> set ?ops. \<not> sets_key (generateKey ''blueprint'' []) op"
    by (simp add: step_keys_differ)
  have b: "fst (TokenCache_get 2000 ''blueprint'' []
             (foldl apply_op (snd (TokenCache_get 1000 ''blueprint'' [] ?c)) ?ops)) = JNull"
    using t ok by blast
  show ?thesis
    using h1 h2 a b by blast
qed

text \<open>
  C6. After \<open>set\<close> with \<open>expiresIn > 180\<close>, a \<open>get\<close> for the same kind and parameters at
  the same clock reading, and at any reading before the stored expiry, returns the token
  that was set and leaves the cache as it is.
\<close>

theorem C6_get_after_set:
  assumes "180 < e"
  shows "TokenCache_get now kind ps (TokenCache_set now kind ps t e c)
           = (t, TokenCache_set now kind ps t e c)
       \<and> (\<forall>now'. now' < now + (e - 180) * 1000 \<longrightarrow>
            TokenCache_get now' kind ps (TokenCache_set now kind ps t e c)
              = (t, TokenCache_set now kind ps t e c))"
  using assms by (simp add: TokenCache_get_def TokenCache_set_def EXPIRY_BUFFER_def)

theorem C6_get_after_set_witness:
  "(180::int) < 181
   \<and> fst (TokenCache_get 1000 ''userToken'' [(''client_id'', JStr ''A1'')]
        (TokenCache_set 1000 ''userToken'' [(''client_id'', JStr ''A1'')] (JStr ''tok3'') 181
           Map.empty))
     = JStr ''tok3''
   \<and> fst (TokenCache_get 1999 ''userToken'' [(''client_id'', JStr ''A1'')]
        (TokenCache_set 1000 ''userToken'' [(''client_id'', JStr ''A1'')] (JStr ''tok3'') 181
           Map.empty))
     = JStr ''tok3''"
proof -
  have h: "(180::int) < 181" by simp
  note t = C6_get_after_set [OF h, of 1000 "''userToken''" "[(''client_id'', JStr ''A1'')]"
                               "JStr ''tok3''" Map.empty]
  have a: "fst (TokenCache_get 1000 ''userToken'' [(''client_id'', JStr ''A1'')]
        (TokenCache_set 1000 ''userToken'' [(''client_id'', JStr ''A1'')] (JStr ''tok3'') 181
           Map.empty)) = JStr ''tok3''"
    using t by simp
  have "(1999::int) < 1000 + (181 - 180) * 1000" by simp
  with t have b: "fst (TokenCache_get 1999 ''userToken'' [(''client_id'', JStr ''A1'')]
        (TokenCache_set 1000 ''userToken'' [(''client_id'', JStr ''A1'')] (JStr ''tok3'') 181
           Map.empty)) = JStr ''tok3''"
    by simp
  show ?thesis using h a b by blast
qed

section \<open>Frame of the cache operations\<close>

text \<open>
  C10. \<open>set\<close> changes no entry but the one at the key of its \<open>(kind, params)\<close>; \<open>get\<close>
  changes no entry but that one, which it leaves as it is or deletes. The keys of two
  different kinds among the three differ, so an operation of one kind leaves every entry
  of the other kinds as it is.
\<close>

theorem C10_cache_frame:
  "(\<forall>key. key \<noteq> generateKey kind ps \<longrightarrow> TokenCache_set now kind ps t e c key = c key)
   \<and> (\<forall>key. key \<noteq> generateKey kind ps \<longrightarrow> snd (TokenCache_get now kind ps c) key = c key)
   \<and> (snd (TokenCache_get now kind ps c) (generateKey kind ps) = c (generateKey kind ps)
        \<or> snd (TokenCache_get now kind ps c) (generateKey kind ps) = None)
   \<and> (kind \<in> set token_kinds \<longrightarrow> kind' \<in> set token_kinds \<longrightarrow> kind \<noteq> kind' \<longrightarrow>
        TokenCache_set now kind ps t e c (generateKey kind' qs) = c (generateKey kind' qs)
        \<and> snd (TokenCache_get now kind ps c) (generateKey kind' qs) = c (generateKey kind' qs))"
proof -
  have a: "key \<noteq> generateKey kind ps \<Longrightarrow> TokenCache_set now kind ps t e c key = c key" for key
    by (simp add: TokenCache_set_def)
  have b: "key \<noteq> generateKey kind ps \<Longrightarrow> snd (TokenCache_get now kind ps c) key = c key" for key
    by (simp add: TokenCache_get_def Let_def split: option.splits)
  have d: "snd (TokenCache_get now kind ps c) (generateKey kind ps) = c (generateKey kind ps)
        \<or> snd (TokenCache_get now kind ps c) (generateKey kind ps) = None"
    by (simp add: TokenCache_get_def Let_def split: option.splits)
  show ?thesis
    using a b d kinds_keys_differ [of kind kind' ps qs] by metis
qed

text \<open>
  An expired \<^verbatim>\<open>agentFic\<close> entry is read while a \<^verbatim>\<open>blueprint\<close> entry is in the
  cache: the first goes, the second stays; a \<open>set\<close> of kind \<^verbatim>\<open>agentFic\<close> leaves the
  \<^verbatim>\<open>blueprint\<close> entry too.
\<close>

theorem C10_cache_frame_witness:
  "''agentFic'' \<in> set token_kinds \<and> ''blueprint'' \<in> set token_kinds
   \<and> ''agentFic'' \<noteq> ''blueprint''
   \<and> snd (TokenCache_get 5000 ''agentFic'' []
        [generateKey ''blueprint'' [] \<mapsto> \<lparr>token = JStr ''b'', expiresAt = 9000\<rparr>,
         generateKey ''agentFic'' [] \<mapsto> \<lparr>token = JStr ''a'', expiresAt = 1000\<rparr>])
        (generateKey ''blueprint'' [])
     = Some \<lparr>token = JStr ''b'', expiresAt = 9000\<rparr>
   \<and> TokenCache_set 5000 ''agentFic'' [] (JStr ''a2'') 3600
        [generateKey ''blueprint'' [] \<mapsto> \<lparr>token = JStr ''b'', expiresAt = 9000\<rparr>,
         generateKey ''agentFic'' [] \<mapsto> \<lparr>token = JStr ''a'', expiresAt = 1000\<rparr>]
        (generateKey ''blueprint'' [])
     = Some \<lparr>token = JStr ''b'', expiresAt = 9000\<rparr>
   \<and> snd (TokenCache_get 5000 ''agentFic'' []
        [generateKey ''blueprint'' [] \<mapsto> \<lparr>token = JStr ''b'', expiresAt = 9000\<rparr>,
         generateKey ''agentFic'' [] \<mapsto> \<lparr>token = JStr ''a'', expiresAt = 1000\<rparr>])
        (generateKey ''agentFic'' [])
     = None"
proof -
  let ?c = "[generateKey ''blueprint'' [] \<mapsto> \<lparr>token = JStr ''b'', expiresAt = 9000\<rparr>,
             generateKey ''agentFic'' [] \<mapsto> \<lparr>token = JStr ''a'', expiresAt = 1000\<rparr>]"
  have k: "''agentFic'' \<in> set token_kinds" "''blueprint'' \<in> set token_kinds"
          "''agentFic'' \<noteq> ''blueprint''"
    by (simp_all add: token_kinds_def)
  note t = C10_cache_frame [of "''agentFic''" "[]" 5000 "JStr ''a2''" 3600 ?c "''blueprint''" "[]"]
  have a: "snd (TokenCache_get 5000 ''agentFic'' [] ?c) (generateKey ''blueprint'' [])
             = Some \<lparr>token = JStr ''b'', expiresAt = 9000\<rparr>"
    using t k by (simp add: step_keys_differ)
  have b: "TokenCache_set 5000 ''agentFic'' [] (JStr ''a2'') 3600 ?c (generateKey ''blueprint'' [])
             = Some \<lparr>token = JStr ''b'', expiresAt = 9000\<rparr>"
    using t k by (simp add: step_keys_differ)
  have d: "snd (TokenCache_get 5000 ''agentFic'' [] ?c) (generateKey ''agentFic'' []) = None"
    by (simp add: TokenCache_get_def)
  show ?thesis using k a b d by blast
qed

section \<open>One step of the chain\<close>

lemma getOrFetchToken_miss:
  assumes "\<not> truthy (fst (tokenCache_get h kind form w))"
  shows "getOrFetchToken h req kind form d stats w =
     (let w1 = snd (tokenCache_get h kind form w) in
      case req form (w1\<lparr>reads := Suc (reads w1)\<rparr>) of
        (Inl err, w3) \<Rightarrow> (Inl err, stats\<lparr>misses := misses stats + 1\<rparr>, w3)
      | (Inr response, w3) \<Rightarrow>
          (Inr (access_token response),
           stats\<lparr>misses := misses stats + 1,
                 timings := assign kind (now_at h (reads w3) - now_at h (reads w1)) (timings stats)\<rparr>,
           tokenCache_set h kind form (access_token response)
             (or_default (expires_in response) d) (w3\<lparr>reads := Suc (reads w3)\<rparr>)))"
proof (cases "tokenCache_get h kind form w")
  case (Pair r w1)
  with assms show ?thesis
    by (simp add: getOrFetchToken_def Date_now_def Let_def split: prod.splits sum.splits)
qed

lemma tokenCache_get_absent:
  "tokenCache w (generateKey kind form) = None \<Longrightarrow> tokenCache_get h kind form w = (JNull, w)"
  by (simp add: tokenCache_get_def TokenCache_get_def)

lemma tokenCache_get_fresh:
  "tokenCache w (generateKey kind form) = Some entry \<Longrightarrow> now_at h (reads w) < expiresAt entry \<Longrightarrow>
   tokenCache_get h kind form w = (token entry, w\<lparr>reads := Suc (reads w)\<rparr>)"
  by (simp add: tokenCache_get_def TokenCache_get_def)

lemma fetched_simps:
  "tokenCache (fetched h endpoint kind form d response w) =
     (tokenCache w)(generateKey kind form \<mapsto> entry_for h (reads w + 2) d response)"
  "reads (fetched h endpoint kind form d response w) = reads w + 3"
  "sent (fetched h endpoint kind form d response w) = sent w @ [request_options h endpoint form]"
  by (simp_all add: fetched_def)

lemma missed_simps:
  "hits (missed h kind w stats) = hits stats"
  "misses (missed h kind w stats) = misses stats + 1"
  by (simp_all add: missed_def)

lemma hit_simps:
  "hits (hit kind stats) = hits stats + 1"
  "misses (hit kind stats) = misses stats"
  by (simp_all add: hit_def)

lemma getOrFetchToken_hit:
  assumes "tokenCache w (generateKey kind form) = Some entry"
      and "now_at h (reads w) < expiresAt entry"
      and "truthy (token entry)"
  shows "getOrFetchToken h req kind form d stats w =
     (Inr (token entry), hit kind stats, w\<lparr>reads := Suc (reads w)\<rparr>)"
  using assms by (simp add: getOrFetchToken_def tokenCache_get_fresh hit_def)

lemma getOrFetchToken_fetched:
  assumes "tokenCache w (generateKey kind form) = None"
      and "httpRequest h (length (sent w)) (request_options h endpoint form) = Inr response"
  shows "getOrFetchToken h (request h endpoint) kind form d stats w =
     (Inr (access_token response), missed h kind w stats, fetched h endpoint kind form d response w)"
  using assms
  by (simp add: getOrFetchToken_miss tokenCache_get_absent request_def tokenCache_set_def
        TokenCache_set_def Let_def missed_def fetched_def entry_for_def)

lemma getOrFetchToken_failed:
  assumes "tokenCache w (generateKey kind form) = None"
      and "httpRequest h (length (sent w)) (request_options h endpoint form) = Inl err"
  shows "getOrFetchToken h (request h endpoint) kind form d stats w =
     (Inl err, stats\<lparr>misses := misses stats + 1\<rparr>,
      w\<lparr>reads := Suc (reads w), sent := sent w @ [request_options h endpoint form]\<rparr>)"
  using assms
  by (simp add: getOrFetchToken_miss tokenCache_get_absent request_def Let_def)

lemma tokenCache_get_sent: "sent (snd (tokenCache_get h kind form w)) = sent w"
  by (simp add: tokenCache_get_def split: prod.splits)

lemma getOrFetchToken_refetched:
  assumes "\<not> truthy (fst (tokenCache_get h kind form w))"
      and "httpRequest h (length (sent w)) (request_options h endpoint form) = Inr response"
  shows "getOrFetchToken h (request h endpoint) kind form d stats w =
     (Inr (access_token response), missed h kind (snd (tokenCache_get h kind form w)) stats,
      fetched h endpoint kind form d response (snd (tokenCache_get h kind form w)))"
  using assms
  by (simp add: getOrFetchToken_miss request_def tokenCache_set_def tokenCache_get_sent
        TokenCache_set_def Let_def missed_def fetched_def entry_for_def)

lemma getOrFetchToken_rejected:
  assumes "\<not> truthy (fst (tokenCache_get h kind form w))"
      and "httpRequest h (length (sent w)) (request_options h endpoint form) = Inl err"
  shows "getOrFetchToken h (request h endpoint) kind form d stats w =
     (Inl err, stats\<lparr>misses := misses stats + 1\<rparr>,
      (snd (tokenCache_get h kind form w))
        \<lparr>reads := Suc (reads (snd (tokenCache_get h kind form w))),
         sent := sent w @ [request_options h endpoint form]\<rparr>)"
  using assms
  by (simp add: getOrFetchToken_miss request_def tokenCache_get_sent Let_def)

lemma request_debug_Inr:
  "httpRequest h (length (sent w)) (request_options h endpoint form) = Inr response \<Longrightarrow>
   request_debug h endpoint stepName form w = request h endpoint form w"
  by (simp add: request_debug_def request_def Let_def)

lemma request_debug_Inl:
  "httpRequest h (length (sent w)) (request_options h endpoint form) = Inl err \<Longrightarrow>
   request_debug h endpoint stepName form w =
     (Inl \<lparr>err_response = None, err_message = Some (enrichedMsg stepName err)\<rparr>,
      snd (request h endpoint form w))"
  by (simp add: request_debug_def request_def Let_def)

lemma getOrFetchToken_debug_refetched:
  assumes "\<not> truthy (fst (tokenCache_get h kind form w))"
      and "httpRequest h (length (sent w)) (request_options h endpoint form) = Inr response"
  shows "getOrFetchToken h (request_debug h endpoint stepName) kind form d stats w =
         getOrFetchToken h (request h endpoint) kind form d stats w"
  using assms
  by (simp add: getOrFetchToken_miss request_debug_Inr tokenCache_get_sent Let_def)

lemma getOrFetchToken_debug_rejected:
  assumes "\<not> truthy (fst (tokenCache_get h kind form w))"
      and "httpRequest h (length (sent w)) (request_options h endpoint form) = Inl err"
  shows "getOrFetchToken h (request_debug h endpoint stepName) kind form d stats w =
     (Inl \<lparr>err_response = None, err_message = Some (enrichedMsg stepName err)\<rparr>,
      stats\<lparr>misses := misses stats + 1\<rparr>,
      (snd (tokenCache_get h kind form w))
        \<lparr>reads := Suc (reads (snd (tokenCache_get h kind form w))),
         sent := sent w @ [request_options h endpoint form]\<rparr>)"
  using assms
  by (simp add: getOrFetchToken_miss request_debug_Inl request_def tokenCache_get_sent Let_def)

section \<open>A failing fetch\<close>

text \<open>
  C1, in the form that holds of the code. Take a step that finds no usable token in the cache, so that it fetches.
  If \<^verbatim>\<open>httpRequest\<close> throws, as it does on a status outside 200-299, the step fails
  and stores nothing: AgentIdToken.node.ts passes on what was thrown, unchanged; the variant
  with a debug log throws an error whose message is
  \<open>[step] HTTP status: body\<close>, where the status is \<open>N/A\<close> when the thrown object
  has none and the body is \<open>unknown error\<close> when it has neither response nor message.
  If \<^verbatim>\<open>httpRequest\<close> returns a body, the step succeeds whatever the body holds: its
  \<open>access_token\<close>, be it \<^verbatim>\<open>undefined\<close>, is stored in the cache and returned.
\<close>

theorem C1_fetch_outcomes:
  assumes "\<not> truthy (fst (tokenCache_get h stepName form w))"
  shows "(httpRequest h (length (sent w)) (request_options h endpoint form) = Inl err \<longrightarrow>
            fst (getOrFetchToken h (request h endpoint) stepName form d stats w) = Inl err
          \<and> fst (getOrFetchToken h (request_debug h endpoint stepName) stepName form d stats w)
              = Inl \<lparr>err_response = None,
                     err_message = Some (''['' @ stepName @ ''] HTTP '' @ statusCode err @ '': ''
                                         @ render (responseBody err))\<rparr>
          \<and> tokenCache (snd (snd (getOrFetchToken h (request h endpoint) stepName form d stats w)))
              = tokenCache (snd (tokenCache_get h stepName form w))
          \<and> snd (getOrFetchToken h (request_debug h endpoint stepName) stepName form d stats w)
              = snd (getOrFetchToken h (request h endpoint) stepName form d stats w))
       \<and> (httpRequest h (length (sent w)) (request_options h endpoint form) = Inr response \<longrightarrow>
            fst (getOrFetchToken h (request h endpoint) stepName form d stats w)
              = Inr (access_token response)
          \<and> tokenCache (snd (snd (getOrFetchToken h (request h endpoint) stepName form d stats w)))
                (generateKey stepName form)
              = Some \<lparr>token = access_token response,
                      expiresAt = now_at h (reads (snd (tokenCache_get h stepName form w)) + 2)
                                  + (or_default (expires_in response) d - 180) * 1000\<rparr>
          \<and> getOrFetchToken h (request_debug h endpoint stepName) stepName form d stats w
              = getOrFetchToken h (request h endpoint) stepName form d stats w)
       \<and> (err_response err = None \<longrightarrow> statusCode err = ''N/A'')
       \<and> (err_response err = None \<longrightarrow> err_message err = None \<longrightarrow>
            responseBody err = Text ''unknown error'')"
proof -
  let ?out = "httpRequest h (length (sent w)) (request_options h endpoint form)"
  let ?plain = "getOrFetchToken h (request h endpoint) stepName form d stats w"
  let ?debug = "getOrFetchToken h (request_debug h endpoint stepName) stepName form d stats w"
  have a: "fst ?plain = Inl err
         \<and> fst ?debug = Inl \<lparr>err_response = None,
                 err_message = Some (''['' @ stepName @ ''] HTTP '' @ statusCode err @ '': ''
                                     @ render (responseBody err))\<rparr>
         \<and> tokenCache (snd (snd ?plain)) = tokenCache (snd (tokenCache_get h stepName form w))
         \<and> snd ?debug = snd ?plain"
    if "?out = Inl err"
    using getOrFetchToken_rejected [OF assms that, of d stats]
      getOrFetchToken_debug_rejected [OF assms that, of stepName d stats]
    by (simp add: enrichedMsg_def)
  have b: "fst ?plain = Inr (access_token response)
         \<and> tokenCache (snd (snd ?plain)) (generateKey stepName form)
               = Some \<lparr>token = access_token response,
                       expiresAt = now_at h (reads (snd (tokenCache_get h stepName form w)) + 2)
                                   + (or_default (expires_in response) d - 180) * 1000\<rparr>
         \<and> ?debug = ?plain"
    if "?out = Inr response"
    using getOrFetchToken_refetched [OF assms that, of d stats]
      getOrFetchToken_debug_refetched [OF assms that, of stepName d stats]
    by (simp add: fetched_simps entry_for_def EXPIRY_BUFFER_def)
  have c: "err_response err = None \<Longrightarrow> statusCode err = ''N/A''"
    by (simp add: statusCode_def)
  have e: "err_response err = None \<Longrightarrow> err_message err = None \<Longrightarrow>
           responseBody err = Text ''unknown error''"
    by (simp add: responseBody_def)
  show ?thesis
    using a b c e by blast
qed

lemma host_ex_simps:
  "now_at (host_ex answers) n = int n"
  "httpRequest (host_ex answers) n options = answer answers n options"
  "encodeBody (host_ex answers) = plain_body"
  by (simp_all add: host_ex_def)

lemma cold_simps:
  "tokenCache cold = Map.empty" "reads cold = 0" "sent cold = []"
  by (simp_all add: cold_def)

lemma decimal_401: "decimal 401 = ''401''"
  by code_simp

lemma enrichedMsg_unauthorized:
  "enrichedMsg stepName unauthorized = ''['' @ stepName @ ''] HTTP 401: invalid_client''"
  by (simp add: enrichedMsg_def statusCode_def responseBody_def render_def unauthorized_def
        decimal_401)

text \<open>
  The \<^verbatim>\<open>agentFic\<close> step on an empty cache: once the endpoint answers 401, once it answers
  with a token.
\<close>

theorem C1_fetch_outcomes_witness:
  "\<not> truthy (fst (tokenCache_get (host_ex [Inl unauthorized]) ''agentFic''
                    (agentFicForm creds_ex (JStr ''tok1'')) cold))
   \<and> httpRequest (host_ex [Inl unauthorized]) (length (sent cold))
        (request_options (host_ex [Inl unauthorized]) (tokenEndpoint creds_ex)
           (agentFicForm creds_ex (JStr ''tok1''))) = Inl unauthorized
   \<and> fst (getOrFetchToken (host_ex [Inl unauthorized])
             (request (host_ex [Inl unauthorized]) (tokenEndpoint creds_ex)) ''agentFic''
             (agentFicForm creds_ex (JStr ''tok1'')) 3600
             \<lparr>hits = 0, misses = 0, timings = []\<rparr> cold)
       = Inl unauthorized
   \<and> fst (getOrFetchToken (host_ex [Inl unauthorized])
             (request_debug (host_ex [Inl unauthorized]) (tokenEndpoint creds_ex) ''agentFic'')
             ''agentFic'' (agentFicForm creds_ex (JStr ''tok1'')) 3600
             \<lparr>hits = 0, misses = 0, timings = []\<rparr> cold)
       = Inl \<lparr>err_response = None,
              err_message = Some ''[agentFic] HTTP 401: invalid_client''\<rparr>
   \<and> tokenCache (snd (snd (getOrFetchToken (host_ex [Inl unauthorized])
             (request (host_ex [Inl unauthorized]) (tokenEndpoint creds_ex)) ''agentFic''
             (agentFicForm creds_ex (JStr ''tok1'')) 3600
             \<lparr>hits = 0, misses = 0, timings = []\<rparr> cold)))
       = Map.empty
   \<and> fst (getOrFetchToken (host_ex [ok_answer ''tok2'' 3600])
             (request (host_ex [ok_answer ''tok2'' 3600]) (tokenEndpoint creds_ex)) ''agentFic''
             (agentFicForm creds_ex (JStr ''tok1'')) 3600
             \<lparr>hits = 0, misses = 0, timings = []\<rparr> cold)
       = Inr (JStr ''tok2'')"
proof -
  let ?f = "agentFicForm creds_ex (JStr ''tok1'')"
  let ?s = "\<lparr>hits = 0, misses = 0, timings = []\<rparr>"
  let ?h = "host_ex [Inl unauthorized]"
  let ?g = "host_ex [ok_answer ''tok2'' 3600]"
  have m: "\<not> truthy (fst (tokenCache_get h ''agentFic'' ?f cold))" for h
    by (simp add: tokenCache_get_absent cold_simps)
  have w1: "tokenCache (snd (tokenCache_get ?h ''agentFic'' ?f cold)) = Map.empty"
    by (simp add: tokenCache_get_absent cold_simps)
  have r: "httpRequest ?h (length (sent cold))
             (request_options ?h (tokenEndpoint creds_ex) ?f) = Inl unauthorized"
    by (simp add: host_ex_simps cold_simps answer_def)
  have r': "httpRequest ?g (length (sent cold))
             (request_options ?g (tokenEndpoint creds_ex) ?f)
              = Inr \<lparr>access_token = JStr ''tok2'', expires_in = Some 3600\<rparr>"
    by (simp add: host_ex_simps cold_simps answer_def ok_answer_def)
  note a = C1_fetch_outcomes [OF m, of ?h "tokenEndpoint creds_ex" unauthorized 3600 ?s]
  note b = C1_fetch_outcomes [OF m, of ?g "tokenEndpoint creds_ex" _ 3600 ?s
             "\<lparr>access_token = JStr ''tok2'', expires_in = Some 3600\<rparr>"]
  have a': "fst (getOrFetchToken ?h (request ?h (tokenEndpoint creds_ex)) ''agentFic'' ?f 3600 ?s cold)
              = Inl unauthorized
          \<and> fst (getOrFetchToken ?h (request_debug ?h (tokenEndpoint creds_ex) ''agentFic'')
                   ''agentFic'' ?f 3600 ?s cold)
              = Inl \<lparr>err_response = None,
                     err_message = Some ''[agentFic] HTTP 401: invalid_client''\<rparr>
          \<and> tokenCache (snd (snd (getOrFetchToken ?h (request ?h (tokenEndpoint creds_ex))
                   ''agentFic'' ?f 3600 ?s cold))) = Map.empty"
    using a r w1 enrichedMsg_unauthorized [of "''agentFic''"] by (simp add: enrichedMsg_def)
  have b': "fst (getOrFetchToken ?g (request ?g (tokenEndpoint creds_ex)) ''agentFic'' ?f 3600 ?s cold)
              = Inr (JStr ''tok2'')"
    using b r' by simp
  show ?thesis
    using m [of ?h] r a' b' by blast
qed

text \<open>
  The claim as stated fails: the endpoint answers the \<^verbatim>\<open>blueprint\<close> request with a
  body that has no \<open>access_token\<close>. The step does not fail, in either variant: it returns
  \<^verbatim>\<open>undefined\<close> as the token and stores it in the cache, for 3600 - 180 seconds from the
  clock reading 2 of \<^verbatim>\<open>tokenCache.set\<close>.
\<close>

theorem C1_missing_access_token_counterexample:
  "fst (getOrFetchToken (host_ex [Inr \<lparr>access_token = JUndefined, expires_in = None\<rparr>])
          (request (host_ex [Inr \<lparr>access_token = JUndefined, expires_in = None\<rparr>])
             (tokenEndpoint creds_ex))
          ''blueprint'' (blueprintForm creds_ex) 3600 \<lparr>hits = 0, misses = 0, timings = []\<rparr> cold)
     = Inr JUndefined
   \<and> fst (getOrFetchToken (host_ex [Inr \<lparr>access_token = JUndefined, expires_in = None\<rparr>])
          (request_debug (host_ex [Inr \<lparr>access_token = JUndefined, expires_in = None\<rparr>])
             (tokenEndpoint creds_ex) ''blueprint'')
          ''blueprint'' (blueprintForm creds_ex) 3600 \<lparr>hits = 0, misses = 0, timings = []\<rparr> cold)
     = Inr JUndefined
   \<and> tokenCache (snd (snd (getOrFetchToken
          (host_ex [Inr \<lparr>access_token = JUndefined, expires_in = None\<rparr>])
          (request (host_ex [Inr \<lparr>access_token = JUndefined, expires_in = None\<rparr>])
             (tokenEndpoint creds_ex))
          ''blueprint'' (blueprintForm creds_ex) 3600 \<lparr>hits = 0, misses = 0, timings = []\<rparr> cold)))
        (generateKey ''blueprint'' (blueprintForm creds_ex))
     = Some \<lparr>token = JUndefined, expiresAt = 3420002\<rparr>"
proof -
  let ?h = "host_ex [Inr \<lparr>access_token = JUndefined, expires_in = None\<rparr>]"
  let ?f = "blueprintForm creds_ex"
  let ?s = "\<lparr>hits = 0, misses = 0, timings = []\<rparr>"
  have m: "\<not> truthy (fst (tokenCache_get ?h ''blueprint'' ?f cold))"
    by (simp add: tokenCache_get_absent cold_simps)
  have r: "httpRequest ?h (length (sent cold)) (request_options ?h (tokenEndpoint creds_ex) ?f)
             = Inr \<lparr>access_token = JUndefined, expires_in = None\<rparr>"
    by (simp add: host_ex_simps cold_simps answer_def)
  have g: "getOrFetchToken ?h (request ?h (tokenEndpoint creds_ex)) ''blueprint'' ?f 3600 ?s cold
             = (Inr JUndefined, missed ?h ''blueprint'' cold ?s,
                fetched ?h (tokenEndpoint creds_ex) ''blueprint'' ?f 3600
                  \<lparr>access_token = JUndefined, expires_in = None\<rparr> cold)"
    using getOrFetchToken_fetched [of cold "''blueprint''" ?f ?h "tokenEndpoint creds_ex"
            "\<lparr>access_token = JUndefined, expires_in = None\<rparr>" 3600 ?s] r
    by (simp add: cold_simps)
  have d: "getOrFetchToken ?h (request_debug ?h (tokenEndpoint creds_ex) ''blueprint'')
             ''blueprint'' ?f 3600 ?s cold
           = getOrFetchToken ?h (request ?h (tokenEndpoint creds_ex)) ''blueprint'' ?f 3600 ?s cold"
    using m r by (rule getOrFetchToken_debug_refetched)
  show ?thesis
    unfolding d g
    by (simp add: fetched_simps entry_for_def or_default_def EXPIRY_BUFFER_def host_ex_simps
          cold_simps)
qed

section \<open>The agentFic step fails\<close>

lemma execute_first_item:
  "execute_with h req v creds (Suc n) w =
     (case execute_item h req v creds \<lparr>hits = 0, misses = 0, timings = []\<rparr> w of
        (Inl err, stats', w') \<Rightarrow> (Inl err, w')
      | (Inr item, stats', w') \<Rightarrow>
          (case execute_loop h req v creds n [item] stats' w' of
             (Inl err, w'') \<Rightarrow> (Inl err, w'')
           | (Inr (returnData, stats), w'') \<Rightarrow>
               (Inr (map (\<lambda>item. item\<lparr>fetch_times_ms := timings stats\<rparr>) returnData), w'')))"
  by (simp add: execute_with_def split: prod.splits sum.splits)

lemma tokenCache_get_cache:
  "tokenCache (snd (tokenCache_get h kind form w)) key =
     (if key = generateKey kind form
      then (case tokenCache w key of None \<Rightarrow> None
            | Some cached \<Rightarrow> if expiresAt cached \<le> now_at h (reads w) then None else Some cached)
      else tokenCache w key)"
  by (simp add: tokenCache_get_def TokenCache_get_def Let_def split: option.splits)

lemma tokenCache_get_reads:
  "reads (snd (tokenCache_get h kind form w)) =
     (if tokenCache w (generateKey kind form) = None then reads w else Suc (reads w))"
  by (simp add: tokenCache_get_def split: prod.splits)

lemma execute_item_agentFic_fails:
  fixes h :: host and creds :: credentials and w :: world and r1 :: TokenResponse
  defines "ep \<equiv> tokenEndpoint creds"
  defines "f1 \<equiv> blueprintForm creds"
  defines "f2 \<equiv> agentFicForm creds (access_token r1)"
  defines "w0 \<equiv> snd (tokenCache_get h ''blueprint'' f1 w)"
  defines "w1 \<equiv> fetched h ep ''blueprint'' f1 3600 r1 w0"
  defines "w2 \<equiv> snd (tokenCache_get h ''agentFic'' f2 w1)"
  defines "w' \<equiv> w2\<lparr>reads := Suc (reads w2),
                     sent := sent w @ [request_options h ep f1, request_options h ep f2]\<rparr>"
  assumes m1: "\<not> truthy (fst (tokenCache_get h ''blueprint'' f1 w))"
      and r1: "httpRequest h (length (sent w)) (request_options h ep f1) = Inr r1"
      and m2: "\<not> truthy (fst (tokenCache_get h ''agentFic'' f2 w1))"
      and r2: "httpRequest h (Suc (length (sent w))) (request_options h ep f2) = Inl err"
  shows "\<exists>stats'. execute_item h (\<lambda>stepName. request h ep) v creds stats w = (Inl err, stats', w')"
    and "\<exists>stats'. execute_item h (request_debug h ep) v creds stats w =
           (Inl \<lparr>err_response = None, err_message = Some (enrichedMsg ''agentFic'' err)\<rparr>,
            stats', w')"
proof -
  let ?s1 = "missed h ''blueprint'' w0 stats"
  have g1: "getOrFetchToken h (request h ep) ''blueprint'' f1 3600 stats w
              = (Inr (access_token r1), ?s1, w1)"
    unfolding w1_def w0_def using m1 r1 by (rule getOrFetchToken_refetched)
  have d1: "getOrFetchToken h (request_debug h ep ''blueprint'') ''blueprint'' f1 3600 stats w
              = (Inr (access_token r1), ?s1, w1)"
    using getOrFetchToken_debug_refetched [OF m1 r1] g1 by simp
  have s1: "sent w1 = sent w @ [request_options h ep f1]"
    by (simp add: w1_def w0_def fetched_simps tokenCache_get_sent)
  have r2': "httpRequest h (length (sent w1)) (request_options h ep f2) = Inl err"
    using r2 by (simp add: s1)
  have g2: "getOrFetchToken h (request h ep) ''agentFic'' f2 3600 ?s1 w1
              = (Inl err, ?s1\<lparr>misses := misses ?s1 + 1\<rparr>, w')"
    using getOrFetchToken_rejected [OF m2 r2', of 3600 ?s1] by (simp add: w'_def w2_def s1)
  have d2: "getOrFetchToken h (request_debug h ep ''agentFic'') ''agentFic'' f2 3600 ?s1 w1
              = (Inl \<lparr>err_response = None, err_message = Some (enrichedMsg ''agentFic'' err)\<rparr>,
                 ?s1\<lparr>misses := misses ?s1 + 1\<rparr>, w')"
    using getOrFetchToken_debug_rejected [OF m2 r2', of "''agentFic''" 3600 ?s1]
    by (simp add: w'_def w2_def s1)
  show "\<exists>stats'. execute_item h (\<lambda>stepName. request h ep) v creds stats w = (Inl err, stats', w')"
    using g1 g2 by (simp add: execute_item_def f1_def f2_def ep_def)
  show "\<exists>stats'. execute_item h (request_debug h ep) v creds stats w =
           (Inl \<lparr>err_response = None, err_message = Some (enrichedMsg ''agentFic'' err)\<rparr>,
            stats', w')"
    using d1 d2 by (simp add: execute_item_def f1_def f2_def ep_def)
qed

text \<open>
  C2, in the form that holds of the code. The \<^verbatim>\<open>blueprint\<close> step finds no usable token
  in the cache and fetches one; the \<^verbatim>\<open>agentFic\<close> step finds no usable token either, and
  its fetch fails with \<open>err\<close>. Then \<^verbatim>\<open>execute\<close> fails and returns no item; exactly the
  two requests of these steps were sent, none for \<^verbatim>\<open>userToken\<close>. In the cache \<open>w'\<close>
  left behind, the key \<open>k1\<close> of the \<^verbatim>\<open>blueprint\<close> step holds the entry written in step 1;
  every key other than \<open>k1\<close> and the key \<open>k2\<close> of the \<^verbatim>\<open>agentFic\<close> step holds what it
  held before the call; \<open>k2\<close> holds what it held before, unless the lookup of the
  \<^verbatim>\<open>agentFic\<close> step found that entry expired and deleted it. So when neither key had an
  entry, the cache is the one before the call plus the \<^verbatim>\<open>blueprint\<close> entry. A retry whose
  first clock reading is before the expiry of that entry, the token being a non-empty
  string, has a cache hit in its \<^verbatim>\<open>blueprint\<close> step and sends no request for it. The
  error of AgentIdToken.node.ts is \<open>err\<close> itself, as \<^verbatim>\<open>httpRequest\<close> threw it: the node
  adds neither the step nor the status. In the variant with a debug log the error has the
  message \<open>[agentFic] HTTP status: body\<close>, the status in decimal when the thrown object
  has one, and the state is the same.
\<close>

theorem C2_agentFic_failure_aborts:
  fixes h :: host and creds :: credentials and w :: world and r1 :: TokenResponse and n :: nat
  defines "k1 \<equiv> generateKey ''blueprint'' (blueprintForm creds)"
  defines "k2 \<equiv> generateKey ''agentFic'' (agentFicForm creds (access_token r1))"
  defines "w0 \<equiv> snd (tokenCache_get h ''blueprint'' (blueprintForm creds) w)"
  defines "w1 \<equiv> snd (snd (getOrFetchToken h (request h (tokenEndpoint creds)) ''blueprint''
                             (blueprintForm creds) 3600 \<lparr>hits = 0, misses = 0, timings = []\<rparr> w))"
  defines "expiry \<equiv> now_at h (reads w0 + 2) + (or_default (expires_in r1) 3600 - 180) * 1000"
  defines "w' \<equiv> snd (execute h creds (Suc n) w)"
  assumes m1: "\<not> truthy (fst (tokenCache_get h ''blueprint'' (blueprintForm creds) w))"
      and r1: "httpRequest h (length (sent w))
                 (request_options h (tokenEndpoint creds) (blueprintForm creds)) = Inr r1"
      and m2: "\<not> truthy (fst (tokenCache_get h ''agentFic''
                                (agentFicForm creds (access_token r1)) w1))"
      and r2: "httpRequest h (Suc (length (sent w)))
                 (request_options h (tokenEndpoint creds) (agentFicForm creds (access_token r1)))
               = Inl err"
  shows "fst (execute h creds (Suc n) w) = Inl err
       \<and> fst (execute_debug h creds (Suc n) w)
           = Inl \<lparr>err_response = None,
                  err_message = Some (''[agentFic] HTTP '' @ statusCode err @ '': ''
                                      @ render (responseBody err))\<rparr>
       \<and> snd (execute_debug h creds (Suc n) w) = w'
       \<and> sent w' = sent w @ [request_options h (tokenEndpoint creds) (blueprintForm creds),
                              request_options h (tokenEndpoint creds)
                                (agentFicForm creds (access_token r1))]
       \<and> tokenCache w' k1 = Some \<lparr>token = access_token r1, expiresAt = expiry\<rparr>
       \<and> (\<forall>key. key \<noteq> k1 \<longrightarrow> key \<noteq> k2 \<longrightarrow> tokenCache w' key = tokenCache w key)
       \<and> tokenCache w' k2
           = (case tokenCache w k2 of None \<Rightarrow> None
              | Some cached \<Rightarrow>
                  if expiresAt cached \<le> now_at h (reads w0 + 3) then None else Some cached)
       \<and> (tokenCache w k1 = None \<longrightarrow> tokenCache w k2 = None \<longrightarrow>
            tokenCache w' = (tokenCache w)(k1 \<mapsto> \<lparr>token = access_token r1, expiresAt = expiry\<rparr>))
       \<and> (truthy (access_token r1) \<longrightarrow> now_at h (reads w') < expiry \<longrightarrow>
            getOrFetchToken h req ''blueprint'' (blueprintForm creds) 3600 stats w'
              = (Inr (access_token r1),
                 stats\<lparr>hits := hits stats + 1, timings := assign ''blueprint'' 0 (timings stats)\<rparr>,
                 w'\<lparr>reads := Suc (reads w')\<rparr>))
       \<and> (\<forall>s. Option.bind (err_response err) resp_status = Some s \<longrightarrow>
            statusCode err = decimal s)"
proof -
  let ?stats0 = "\<lparr>hits = 0, misses = 0, timings = []\<rparr>"
  let ?ep = "tokenEndpoint creds"
  let ?f1 = "blueprintForm creds"
  let ?f2 = "agentFicForm creds (access_token r1)"
  let ?w2 = "snd (tokenCache_get h ''agentFic'' ?f2 w1)"
  let ?w = "?w2\<lparr>reads := Suc (reads ?w2),
                 sent := sent w @ [request_options h ?ep ?f1, request_options h ?ep ?f2]\<rparr>"
  have w1: "w1 = fetched h ?ep ''blueprint'' ?f1 3600 r1 w0"
    by (simp add: w1_def w0_def getOrFetchToken_refetched [OF m1 r1])
  note fails = execute_item_agentFic_fails [OF m1 r1 m2 [unfolded w1 w0_def] r2, folded w0_def,
      unfolded w1 [symmetric]]
  obtain s where p: "execute_item h (\<lambda>stepName. request h ?ep) ''0.1.6'' creds ?stats0 w
                      = (Inl err, s, ?w)"
    using fails(1) [of "''0.1.6''" ?stats0] by blast
  obtain s' where q: "execute_item h (request_debug h ?ep) ''0.1.8'' creds ?stats0 w
     = (Inl \<lparr>err_response = None, err_message = Some (enrichedMsg ''agentFic'' err)\<rparr>, s', ?w)"
    using fails(2) [of "''0.1.8''" ?stats0] by blast
  have e: "execute h creds (Suc n) w = (Inl err, ?w)"
    by (simp add: execute_def execute_first_item p)
  have d: "execute_debug h creds (Suc n) w
             = (Inl \<lparr>err_response = None, err_message = Some (enrichedMsg ''agentFic'' err)\<rparr>, ?w)"
    by (simp add: execute_debug_def execute_first_item q)
  have w': "w' = ?w"
    by (simp add: w'_def e)
  have ne: "k1 \<noteq> k2"
    by (simp add: k1_def k2_def step_keys_differ)
  have c0: "tokenCache w0 key = tokenCache w key" if "key \<noteq> k1" for key
    using that by (simp add: w0_def k1_def tokenCache_get_cache)
  have c1: "tokenCache w1 key =
              (if key = k1 then Some \<lparr>token = access_token r1, expiresAt = expiry\<rparr>
               else tokenCache w key)" for key
    using c0 [of key]
    by (simp add: w1 fetched_simps entry_for_def expiry_def k1_def EXPIRY_BUFFER_def)
  have n1: "reads w1 = reads w0 + 3"
    by (simp add: w1 fetched_simps)
  have ck1: "tokenCache w' k1 = Some \<lparr>token = access_token r1, expiresAt = expiry\<rparr>"
    using ne c1 [of k1] by (simp add: w' tokenCache_get_cache k2_def [symmetric])
  have other: "tokenCache w' key = tokenCache w key" if "key \<noteq> k1" "key \<noteq> k2" for key
    using that c1 [of key] by (simp add: w' tokenCache_get_cache k2_def [symmetric])
  have ck2: "tokenCache w' k2
           = (case tokenCache w k2 of None \<Rightarrow> None
              | Some cached \<Rightarrow>
                  if expiresAt cached \<le> now_at h (reads w0 + 3) then None else Some cached)"
    using ne c1 [of k2]
    by (simp add: w' tokenCache_get_cache k2_def [symmetric] n1 split: option.splits)
  have plain: "tokenCache w' = (tokenCache w)(k1 \<mapsto> \<lparr>token = access_token r1, expiresAt = expiry\<rparr>)"
    if "tokenCache w k1 = None" "tokenCache w k2 = None"
  proof
    fix key
    show "tokenCache w' key
            = ((tokenCache w)(k1 \<mapsto> \<lparr>token = access_token r1, expiresAt = expiry\<rparr>)) key"
      using ck1 ck2 other [of key] that ne by (cases "key = k1"; cases "key = k2") auto
  qed
  have retry: "getOrFetchToken h req ''blueprint'' ?f1 3600 stats w'
            = (Inr (access_token r1),
               stats\<lparr>hits := hits stats + 1, timings := assign ''blueprint'' 0 (timings stats)\<rparr>,
               w'\<lparr>reads := Suc (reads w')\<rparr>)"
    if "truthy (access_token r1)" "now_at h (reads w') < expiry"
    using getOrFetchToken_hit [of w' "''blueprint''" ?f1
            "\<lparr>token = access_token r1, expiresAt = expiry\<rparr>" h req 3600 stats]
      that ck1
    by (simp add: hit_def k1_def)
  have st: "Option.bind (err_response err) resp_status = Some s \<Longrightarrow> statusCode err = decimal s" for s
    by (simp add: statusCode_def)
  have a: "fst (execute h creds (Suc n) w) = Inl err"
    by (simp add: e)
  have b: "fst (execute_debug h creds (Suc n) w)
           = Inl \<lparr>err_response = None,
                  err_message = Some (''[agentFic] HTTP '' @ statusCode err @ '': ''
                                      @ render (responseBody err))\<rparr>"
    by (simp add: d enrichedMsg_def)
  have c: "snd (execute_debug h creds (Suc n) w) = w'"
    by (simp add: d w')
  have sn: "sent w' = sent w @ [request_options h ?ep ?f1, request_options h ?ep ?f2]"
    by (simp add: w')
  show ?thesis
    using a b c sn ck1 other ck2 plain retry st by blast
qed

lemma execute_item_blueprint_rejected:
  assumes "tokenCache w (generateKey ''blueprint'' (blueprintForm creds)) = None"
      and "httpRequest h (length (sent w))
             (request_options h (tokenEndpoint creds) (blueprintForm creds)) = Inl err"
  shows "fst (execute h creds (Suc n) w) = Inl err"
  using getOrFetchToken_failed [OF assms, of 3600 "\<lparr>hits = 0, misses = 0, timings = []\<rparr>"]
  by (simp add: execute_def execute_first_item execute_item_def)

lemma execute_agentFic_fails_reads:
  assumes "\<not> truthy (fst (tokenCache_get h ''blueprint'' (blueprintForm creds) w))"
      and "httpRequest h (length (sent w))
             (request_options h (tokenEndpoint creds) (blueprintForm creds)) = Inr r1"
      and "\<not> truthy (fst (tokenCache_get h ''agentFic'' (agentFicForm creds (access_token r1))
                 (fetched h (tokenEndpoint creds) ''blueprint'' (blueprintForm creds) 3600 r1
                    (snd (tokenCache_get h ''blueprint'' (blueprintForm creds) w)))))"
      and "httpRequest h (Suc (length (sent w)))
             (request_options h (tokenEndpoint creds) (agentFicForm creds (access_token r1)))
           = Inl err"
  shows "reads (snd (execute h creds (Suc n) w)) =
           Suc (reads (snd (tokenCache_get h ''agentFic'' (agentFicForm creds (access_token r1))
                 (fetched h (tokenEndpoint creds) ''blueprint'' (blueprintForm creds) 3600 r1
                    (snd (tokenCache_get h ''blueprint'' (blueprintForm creds) w))))))"
  using execute_item_agentFic_fails(1) [OF assms, of "''0.1.6''" "\<lparr>hits = 0, misses = 0, timings = []\<rparr>"]
  by (auto simp: execute_def execute_first_item)

text \<open>
  The endpoint answers the first request with the token \<open>tok1\<close> and the second with 401.
  From an empty cache, the call fails with that error after two requests, the variant with
  a debug log reports \<open>[agentFic] HTTP 401: invalid_client\<close>, the cache holds the
  \<^verbatim>\<open>blueprint\<close> entry alone, and the \<^verbatim>\<open>blueprint\<close> step of a retry is a cache hit. From
  a cache that holds an expired entry under the key of the \<^verbatim>\<open>agentFic\<close> step, the call
  fails in the same way, that entry is gone and the \<^verbatim>\<open>blueprint\<close> entry is there.
\<close>

theorem C2_agentFic_failure_aborts_witness:
  "\<not> truthy (fst (tokenCache_get (host_ex [ok_answer ''tok1'' 3600, Inl unauthorized])
                    ''blueprint'' (blueprintForm creds_ex) cold))
   \<and> httpRequest (host_ex [ok_answer ''tok1'' 3600, Inl unauthorized]) (length (sent cold))
        (request_options (host_ex [ok_answer ''tok1'' 3600, Inl unauthorized])
           (tokenEndpoint creds_ex) (blueprintForm creds_ex))
       = Inr \<lparr>access_token = JStr ''tok1'', expires_in = Some 3600\<rparr>
   \<and> httpRequest (host_ex [ok_answer ''tok1'' 3600, Inl unauthorized]) (Suc (length (sent cold)))
        (request_options (host_ex [ok_answer ''tok1'' 3600, Inl unauthorized])
           (tokenEndpoint creds_ex) (agentFicForm creds_ex (JStr ''tok1'')))
       = Inl unauthorized
   \<and> fst (execute (host_ex [ok_answer ''tok1'' 3600, Inl unauthorized]) creds_ex 1 cold)
       = Inl unauthorized
   \<and> fst (execute_debug (host_ex [ok_answer ''tok1'' 3600, Inl unauthorized]) creds_ex 1 cold)
       = Inl \<lparr>err_response = None,
              err_message = Some ''[agentFic] HTTP 401: invalid_client''\<rparr>
   \<and> length (sent (snd (execute (host_ex [ok_answer ''tok1'' 3600, Inl unauthorized])
                           creds_ex 1 cold))) = 2
   \<and> tokenCache (snd (execute (host_ex [ok_answer ''tok1'' 3600, Inl unauthorized])
                         creds_ex 1 cold))
       = [generateKey ''blueprint'' (blueprintForm creds_ex)
            \<mapsto> \<lparr>token = JStr ''tok1'', expiresAt = 3420002\<rparr>]
   \<and> fst (getOrFetchToken (host_ex [ok_answer ''tok1'' 3600, Inl unauthorized])
             (request (host_ex [ok_answer ''tok1'' 3600, Inl unauthorized])
                (tokenEndpoint creds_ex))
             ''blueprint'' (blueprintForm creds_ex) 3600 \<lparr>hits = 0, misses = 0, timings = []\<rparr>
             (snd (execute (host_ex [ok_answer ''tok1'' 3600, Inl unauthorized]) creds_ex 1 cold)))
       = Inr (JStr ''tok1'')
   \<and> tokenCache stale_agentFic (generateKey ''agentFic'' (agentFicForm creds_ex (JStr ''tok1'')))
       = Some \<lparr>token = JStr ''old'', expiresAt = 1\<rparr>
   \<and> fst (execute (host_ex [ok_answer ''tok1'' 3600, Inl unauthorized]) creds_ex 1 stale_agentFic)
       = Inl unauthorized
   \<and> tokenCache (snd (execute (host_ex [ok_answer ''tok1'' 3600, Inl unauthorized])
                         creds_ex 1 stale_agentFic))
        (generateKey ''agentFic'' (agentFicForm creds_ex (JStr ''tok1'')))
       = None
   \<and> tokenCache (snd (execute (host_ex [ok_answer ''tok1'' 3600, Inl unauthorized])
                         creds_ex 1 stale_agentFic))
        (generateKey ''blueprint'' (blueprintForm creds_ex))
       = Some \<lparr>token = JStr ''tok1'', expiresAt = 3420002\<rparr>"
proof -
  let ?h = "host_ex [ok_answer ''tok1'' 3600, Inl unauthorized]"
  let ?r1 = "\<lparr>access_token = JStr ''tok1'', expires_in = Some 3600\<rparr>"
  let ?s = "\<lparr>hits = 0, misses = 0, timings = []\<rparr>"
  let ?ep = "tokenEndpoint creds_ex"
  let ?f1 = "blueprintForm creds_ex"
  let ?f2 = "agentFicForm creds_ex (access_token ?r1)"
  let ?k2 = "generateKey ''agentFic'' (agentFicForm creds_ex (JStr ''tok1''))"
  have st: "tokenCache stale_agentFic = [?k2 \<mapsto> \<lparr>token = JStr ''old'', expiresAt = 1\<rparr>]"
           "reads stale_agentFic = 0" "sent stale_agentFic = []"
    by (simp_all add: stale_agentFic_def)
  have m1: "\<not> truthy (fst (tokenCache_get ?h ''blueprint'' ?f1 cold))"
    by (simp add: tokenCache_get_absent cold_simps)
  have m1': "\<not> truthy (fst (tokenCache_get ?h ''blueprint'' ?f1 stale_agentFic))"
    by (simp add: tokenCache_get_absent st step_keys_differ)
  have r1: "httpRequest ?h (length (sent cold)) (request_options ?h ?ep ?f1) = Inr ?r1"
    by (simp add: host_ex_simps cold_simps answer_def ok_answer_def)
  have r1': "httpRequest ?h (length (sent stale_agentFic)) (request_options ?h ?ep ?f1) = Inr ?r1"
    by (simp add: host_ex_simps st answer_def ok_answer_def)
  have r2: "httpRequest ?h (Suc (length (sent cold))) (request_options ?h ?ep ?f2)
              = Inl unauthorized"
    by (simp add: host_ex_simps cold_simps answer_def)
  have r2': "httpRequest ?h (Suc (length (sent stale_agentFic))) (request_options ?h ?ep ?f2)
              = Inl unauthorized"
    by (simp add: host_ex_simps st answer_def)
  have w1: "snd (snd (getOrFetchToken ?h (request ?h ?ep) ''blueprint'' ?f1 3600 ?s cold))
              = fetched ?h ?ep ''blueprint'' ?f1 3600 ?r1 (snd (tokenCache_get ?h ''blueprint'' ?f1 cold))"
    by (simp add: getOrFetchToken_refetched [OF m1 r1])
  have w1': "snd (snd (getOrFetchToken ?h (request ?h ?ep) ''blueprint'' ?f1 3600 ?s stale_agentFic))
              = fetched ?h ?ep ''blueprint'' ?f1 3600 ?r1
                  (snd (tokenCache_get ?h ''blueprint'' ?f1 stale_agentFic))"
    by (simp add: getOrFetchToken_refetched [OF m1' r1'])
  have g0: "tokenCache_get ?h ''blueprint'' ?f1 cold = (JNull, cold)"
    by (simp add: tokenCache_get_absent cold_simps)
  have g0': "tokenCache_get ?h ''blueprint'' ?f1 stale_agentFic = (JNull, stale_agentFic)"
    by (simp add: tokenCache_get_absent st step_keys_differ)
  have f2: "\<not> truthy (fst (tokenCache_get ?h ''agentFic'' ?f2
               (fetched ?h ?ep ''blueprint'' ?f1 3600 ?r1
                  (snd (tokenCache_get ?h ''blueprint'' ?f1 cold)))))"
    by (simp add: g0 tokenCache_get_absent fetched_simps cold_simps step_keys_differ)
  have f2': "\<not> truthy (fst (tokenCache_get ?h ''agentFic'' ?f2
               (fetched ?h ?ep ''blueprint'' ?f1 3600 ?r1
                  (snd (tokenCache_get ?h ''blueprint'' ?f1 stale_agentFic)))))"
    by (simp add: g0' tokenCache_get_def TokenCache_get_def fetched_simps st step_keys_differ
          host_ex_simps)
  have m2: "\<not> truthy (fst (tokenCache_get ?h ''agentFic'' ?f2
               (snd (snd (getOrFetchToken ?h (request ?h ?ep) ''blueprint'' ?f1 3600 ?s cold)))))"
    unfolding w1 by (rule f2)
  have m2': "\<not> truthy (fst (tokenCache_get ?h ''agentFic'' ?f2
               (snd (snd (getOrFetchToken ?h (request ?h ?ep) ''blueprint'' ?f1 3600 ?s
                            stale_agentFic)))))"
    unfolding w1' by (rule f2')
  note t = C2_agentFic_failure_aborts [OF m1 r1 m2 r2, of 0 "request ?h ?ep" ?s]
  note t' = C2_agentFic_failure_aborts [OF m1' r1' m2' r2', of 0 "request ?h ?ep" ?s]
  have rd: "reads (snd (execute ?h creds_ex 1 cold)) = 4"
    using execute_agentFic_fails_reads [OF m1 r1 f2 r2, of 0]
    by (simp add: g0 tokenCache_get_reads fetched_simps cold_simps step_keys_differ)
  have a: "fst (execute ?h creds_ex 1 cold) = Inl unauthorized"
    using t by simp
  have b: "fst (execute_debug ?h creds_ex 1 cold)
             = Inl \<lparr>err_response = None,
                    err_message = Some ''[agentFic] HTTP 401: invalid_client''\<rparr>"
    using t enrichedMsg_unauthorized [of "''agentFic''"] by (simp add: enrichedMsg_def)
  have c: "length (sent (snd (execute ?h creds_ex 1 cold))) = 2"
    using t by (simp add: cold_simps)
  have d: "tokenCache (snd (execute ?h creds_ex 1 cold))
             = [generateKey ''blueprint'' ?f1 \<mapsto> \<lparr>token = JStr ''tok1'', expiresAt = 3420002\<rparr>]"
    using t by (simp add: g0 cold_simps host_ex_simps or_default_def)
  have e: "fst (getOrFetchToken ?h (request ?h ?ep) ''blueprint'' ?f1 3600 ?s
                  (snd (execute ?h creds_ex 1 cold)))
             = Inr (JStr ''tok1'')"
    using t rd by (simp add: g0 cold_simps host_ex_simps or_default_def)
  have a': "fst (execute ?h creds_ex 1 stale_agentFic) = Inl unauthorized"
    using t' by simp
  have b': "tokenCache (snd (execute ?h creds_ex 1 stale_agentFic)) ?k2 = None"
    using t' by (simp add: g0' st host_ex_simps)
  have c': "tokenCache (snd (execute ?h creds_ex 1 stale_agentFic)) (generateKey ''blueprint'' ?f1)
              = Some \<lparr>token = JStr ''tok1'', expiresAt = 3420002\<rparr>"
    using t' by (simp add: g0' st host_ex_simps or_default_def)
  have s2: "tokenCache stale_agentFic ?k2 = Some \<lparr>token = JStr ''old'', expiresAt = 1\<rparr>"
    by (simp add: st)
  show ?thesis
    using m1 r1 r2 a b c d e s2 a' b' c' by simp
qed

text \<open>
  The claim as stated fails for AgentIdToken.node.ts: its error does not tell which step
  failed. When the endpoint answers 401 to the first request, which is the one of the
  \<^verbatim>\<open>blueprint\<close> step, and when it answers 401 to the second, which is the one of the
  \<^verbatim>\<open>agentFic\<close> step, \<^verbatim>\<open>execute\<close> fails with the same error: the object that
  \<^verbatim>\<open>httpRequest\<close> threw.
\<close>

theorem C2_error_names_no_step_counterexample:
  "fst (execute (host_ex [ok_answer ''tok1'' 3600, Inl unauthorized]) creds_ex 1 cold)
     = Inl unauthorized
   \<and> fst (execute (host_ex [Inl unauthorized]) creds_ex 1 cold) = Inl unauthorized"
proof -
  let ?h = "host_ex [ok_answer ''tok1'' 3600, Inl unauthorized]"
  let ?g = "host_ex [Inl unauthorized]"
  let ?r1 = "\<lparr>access_token = JStr ''tok1'', expires_in = Some 3600\<rparr>"
  let ?ep = "tokenEndpoint creds_ex"
  let ?f1 = "blueprintForm creds_ex"
  let ?f2 = "agentFicForm creds_ex (access_token ?r1)"
  have k1: "tokenCache cold (generateKey ''blueprint'' ?f1) = None"
    by (simp add: cold_simps)
  have m1: "\<not> truthy (fst (tokenCache_get ?h ''blueprint'' ?f1 cold))"
    by (simp add: tokenCache_get_absent cold_simps)
  have r1: "httpRequest ?h (length (sent cold)) (request_options ?h ?ep ?f1) = Inr ?r1"
    by (simp add: host_ex_simps cold_simps answer_def ok_answer_def)
  have m2: "\<not> truthy (fst (tokenCache_get ?h ''agentFic'' ?f2
               (fetched ?h ?ep ''blueprint'' ?f1 3600 ?r1
                  (snd (tokenCache_get ?h ''blueprint'' ?f1 cold)))))"
    by (simp add: tokenCache_get_absent fetched_simps cold_simps step_keys_differ)
  have r2: "httpRequest ?h (Suc (length (sent cold))) (request_options ?h ?ep ?f2)
              = Inl unauthorized"
    by (simp add: host_ex_simps cold_simps answer_def)
  have a: "fst (execute ?h creds_ex 1 cold) = Inl unauthorized"
    using execute_item_agentFic_fails(1) [OF m1 r1 m2 r2, of "''0.1.6''"
            "\<lparr>hits = 0, misses = 0, timings = []\<rparr>"]
    by (auto simp: execute_def execute_first_item)
  have g1: "httpRequest ?g (length (sent cold)) (request_options ?g ?ep ?f1) = Inl unauthorized"
    by (simp add: host_ex_simps cold_simps answer_def)
  have b: "fst (execute ?g creds_ex 1 cold) = Inl unauthorized"
    using execute_item_blueprint_rejected [OF k1 g1, of 0] by simp
  show ?thesis using a b by simp
qed

section \<open>Two runs of the chain\<close>

lemma execute_item_cold:
  assumes k1: "tokenCache w (generateKey ''blueprint'' (blueprintForm creds)) = None"
      and k2: "tokenCache w (generateKey ''agentFic'' (agentFicForm creds (access_token r1))) = None"
      and k3: "tokenCache w (generateKey ''userToken''
                 (userTokenForm creds (userScope_of creds) (access_token r1) (access_token r2))) = None"
      and r1: "httpRequest h (length (sent w))
                 (request_options h (tokenEndpoint creds) (blueprintForm creds)) = Inr r1"
      and r2: "httpRequest h (Suc (length (sent w)))
                 (request_options h (tokenEndpoint creds) (agentFicForm creds (access_token r1))) = Inr r2"
      and r3: "httpRequest h (Suc (Suc (length (sent w))))
                 (request_options h (tokenEndpoint creds)
                    (userTokenForm creds (userScope_of creds) (access_token r1) (access_token r2)))
               = Inr r3"
  shows "\<exists>stats'.
     execute_item h (\<lambda>stepName. request h (tokenEndpoint creds)) v creds stats w =
       (Inr \<lparr>out_access_token = access_token r3, blueprint_token = access_token r1,
             agent_token = access_token r2, out_scope = userScope_of creds, node_version = v,
             cache_hits = hits stats, cache_misses = misses stats + 3,
             fetch_times_ms = timings stats',
             total_fetch_time_ms = sum_list (map snd (timings stats'))\<rparr>,
        stats', after_cold_run h creds r1 r2 r3 w)
     \<and> hits stats' = hits stats \<and> misses stats' = misses stats + 3"
proof -
  let ?ep = "tokenEndpoint creds"
  let ?f1 = "blueprintForm creds"
  let ?f2 = "agentFicForm creds (access_token r1)"
  let ?f3 = "userTokenForm creds (userScope_of creds) (access_token r1) (access_token r2)"
  let ?w1 = "fetched h ?ep ''blueprint'' ?f1 3600 r1 w"
  let ?w2 = "fetched h ?ep ''agentFic'' ?f2 3600 r2 ?w1"
  let ?s1 = "missed h ''blueprint'' w stats"
  let ?s2 = "missed h ''agentFic'' ?w1 ?s1"
  let ?s3 = "missed h ''userToken'' ?w2 ?s2"
  let ?req = "request h ?ep"
  have g1: "getOrFetchToken h ?req ''blueprint'' ?f1 3600 stats w = (Inr (access_token r1), ?s1, ?w1)"
    using k1 r1 by (rule getOrFetchToken_fetched)
  have g2: "getOrFetchToken h ?req ''agentFic'' ?f2 3600 ?s1 ?w1 = (Inr (access_token r2), ?s2, ?w2)"
    by (rule getOrFetchToken_fetched) (simp_all add: fetched_simps step_keys_differ k2 r2)
  have g3: "getOrFetchToken h ?req ''userToken'' ?f3 3600 ?s2 ?w2
              = (Inr (access_token r3), ?s3, after_cold_run h creds r1 r2 r3 w)"
    unfolding after_cold_run_def
    by (rule getOrFetchToken_fetched) (simp_all add: fetched_simps step_keys_differ k3 r3)
  show ?thesis
    by (rule exI [of _ ?s3]) (simp add: execute_item_def g1 g2 g3 missed_simps)
qed

lemma after_cold_run_simps:
  "reads (after_cold_run h creds r1 r2 r3 w) = reads w + 9"
  "sent (after_cold_run h creds r1 r2 r3 w) =
     sent w @ [request_options h (tokenEndpoint creds) (blueprintForm creds),
               request_options h (tokenEndpoint creds) (agentFicForm creds (access_token r1)),
               request_options h (tokenEndpoint creds)
                 (userTokenForm creds (userScope_of creds) (access_token r1) (access_token r2))]"
  "tokenCache (after_cold_run h creds r1 r2 r3 w) (generateKey ''blueprint'' ps) =
     (if generateKey ''blueprint'' ps = generateKey ''blueprint'' (blueprintForm creds)
      then Some (entry_for h (reads w + 2) 3600 r1)
      else tokenCache w (generateKey ''blueprint'' ps))"
  "tokenCache (after_cold_run h creds r1 r2 r3 w) (generateKey ''agentFic'' ps) =
     (if generateKey ''agentFic'' ps = generateKey ''agentFic'' (agentFicForm creds (access_token r1))
      then Some (entry_for h (reads w + 5) 3600 r2)
      else tokenCache w (generateKey ''agentFic'' ps))"
  "tokenCache (after_cold_run h creds r1 r2 r3 w) (generateKey ''userToken'' ps) =
     (if generateKey ''userToken'' ps = generateKey ''userToken''
            (userTokenForm creds (userScope_of creds) (access_token r1) (access_token r2))
      then Some (entry_for h (reads w + 8) 3600 r3)
      else tokenCache w (generateKey ''userToken'' ps))"
  by (simp_all add: after_cold_run_def fetched_simps step_keys_differ add.commute)

lemma execute_item_warm:
  assumes e1: "tokenCache w (generateKey ''blueprint'' (blueprintForm creds)) = Some e1"
      and t1: "truthy (token e1)" and f1: "now_at h (reads w) < expiresAt e1"
      and e2: "tokenCache w (generateKey ''agentFic'' (agentFicForm creds (token e1))) = Some e2"
      and t2: "truthy (token e2)" and f2: "now_at h (Suc (reads w)) < expiresAt e2"
      and e3: "tokenCache w (generateKey ''userToken''
                 (userTokenForm creds (userScope_of creds) (token e1) (token e2))) = Some e3"
      and t3: "truthy (token e3)" and f3: "now_at h (Suc (Suc (reads w))) < expiresAt e3"
  shows "\<exists>stats'.
     execute_item h req v creds stats w =
       (Inr \<lparr>out_access_token = token e3, blueprint_token = token e1,
             agent_token = token e2, out_scope = userScope_of creds, node_version = v,
             cache_hits = hits stats + 3, cache_misses = misses stats,
             fetch_times_ms = timings stats',
             total_fetch_time_ms = sum_list (map snd (timings stats'))\<rparr>,
        stats', w\<lparr>reads := reads w + 3\<rparr>)
     \<and> hits stats' = hits stats + 3 \<and> misses stats' = misses stats"
proof -
  let ?f1 = "blueprintForm creds"
  let ?f2 = "agentFicForm creds (token e1)"
  let ?f3 = "userTokenForm creds (userScope_of creds) (token e1) (token e2)"
  let ?w1 = "w\<lparr>reads := Suc (reads w)\<rparr>"
  let ?w2 = "w\<lparr>reads := Suc (Suc (reads w))\<rparr>"
  let ?w3 = "w\<lparr>reads := reads w + 3\<rparr>"
  let ?s1 = "hit ''blueprint'' stats"
  let ?s2 = "hit ''agentFic'' ?s1"
  let ?s3 = "hit ''userToken'' ?s2"
  have g1: "getOrFetchToken h (req ''blueprint'') ''blueprint'' ?f1 3600 stats w
              = (Inr (token e1), ?s1, ?w1)"
    using e1 f1 t1 by (rule getOrFetchToken_hit)
  have g2: "getOrFetchToken h (req ''agentFic'') ''agentFic'' ?f2 3600 ?s1 ?w1
              = (Inr (token e2), ?s2, ?w2)"
    using getOrFetchToken_hit [of ?w1 "''agentFic''" ?f2 e2 h "req ''agentFic''" 3600 ?s1] e2 f2 t2
    by simp
  have g3: "getOrFetchToken h (req ''userToken'') ''userToken'' ?f3 3600 ?s2 ?w2
              = (Inr (token e3), ?s3, ?w3)"
    using getOrFetchToken_hit [of ?w2 "''userToken''" ?f3 e3 h "req ''userToken''" 3600 ?s2] e3 f3 t3
    by simp
  show ?thesis
    by (rule exI [of _ ?s3]) (simp add: execute_item_def g1 g2 g3 hit_simps)
qed

lemma execute_cold:
  assumes "tokenCache w = Map.empty"
      and "httpRequest h (length (sent w))
             (request_options h (tokenEndpoint creds) (blueprintForm creds)) = Inr r1"
      and "httpRequest h (Suc (length (sent w)))
             (request_options h (tokenEndpoint creds) (agentFicForm creds (access_token r1))) = Inr r2"
      and "httpRequest h (Suc (Suc (length (sent w))))
             (request_options h (tokenEndpoint creds)
                (userTokenForm creds (userScope_of creds) (access_token r1) (access_token r2)))
           = Inr r3"
  shows "snd (execute h creds 1 w) = after_cold_run h creds r1 r2 r3 w"
  using execute_item_cold [of w creds r1 r2 h r3 "''0.1.6''" "\<lparr>hits = 0, misses = 0, timings = []\<rparr>"]
    assms
  by (auto simp: execute_def execute_with_def)

text \<open>
  C7, in the form that holds of the code. The cache is empty and the endpoint answers the
  three requests of the chain with tokens \<open>t1\<close>, \<open>t2\<close>, \<open>t3\<close> that are non-empty
  strings. The chain is run, and run again with
  the same credentials, every entry of the cache being unexpired at each of the three clock
  readings of the second run. Then the first run sends three requests and the second none,
  both return the same three tokens, the first run counts 0 hits and 3 misses and the second
  3 hits and 0 misses: 3 and 3 in sum. That holds for two calls of \<^verbatim>\<open>execute\<close> on one
  item each; one call on two items does the same, and its second item reports 3 hits and 3
  misses, since the counters are those of the call.
\<close>

theorem C7_chain_twice:
  assumes cold: "tokenCache w = Map.empty"
    and r1: "httpRequest h (length (sent w))
               (request_options h (tokenEndpoint creds) (blueprintForm creds)) = Inr r1"
    and t1: "access_token r1 = JStr t1" "t1 \<noteq> []"
    and r2: "httpRequest h (length (sent w) + 1)
               (request_options h (tokenEndpoint creds) (agentFicForm creds (JStr t1))) = Inr r2"
    and t2: "access_token r2 = JStr t2" "t2 \<noteq> []"
    and r3: "httpRequest h (length (sent w) + 2)
               (request_options h (tokenEndpoint creds)
                  (userTokenForm creds (userScope_of creds) (JStr t1) (JStr t2))) = Inr r3"
    and t3: "access_token r3 = JStr t3" "t3 \<noteq> []"
    and fresh: "\<forall>key entry. tokenCache (snd (execute h creds 1 w)) key = Some entry \<longrightarrow>
                  (\<forall>k<3. now_at h (reads (snd (execute h creds 1 w)) + k) < expiresAt entry)"
  shows "(\<exists>item1 w1 item2 w2.
      execute h creds 1 w = (Inr [item1], w1) \<and> execute h creds 1 w1 = (Inr [item2], w2)
    \<and> length (sent w1) = length (sent w) + 3 \<and> sent w2 = sent w1
    \<and> blueprint_token item1 = JStr t1 \<and> agent_token item1 = JStr t2
    \<and> out_access_token item1 = JStr t3
    \<and> blueprint_token item2 = blueprint_token item1 \<and> agent_token item2 = agent_token item1
    \<and> out_access_token item2 = out_access_token item1
    \<and> cache_hits item1 = 0 \<and> cache_misses item1 = 3
    \<and> cache_hits item2 = 3 \<and> cache_misses item2 = 0
    \<and> cache_hits item1 + cache_hits item2 = 3 \<and> cache_misses item1 + cache_misses item2 = 3)
   \<and> (\<exists>item1 item2 w2.
      execute h creds 2 w = (Inr [item1, item2], w2)
    \<and> length (sent w2) = length (sent w) + 3
    \<and> blueprint_token item1 = JStr t1 \<and> agent_token item1 = JStr t2
    \<and> out_access_token item1 = JStr t3
    \<and> blueprint_token item2 = blueprint_token item1 \<and> agent_token item2 = agent_token item1
    \<and> out_access_token item2 = out_access_token item1
    \<and> cache_hits item2 = 3 \<and> cache_misses item2 = 3)"
proof -
  let ?stats0 = "\<lparr>hits = 0, misses = 0, timings = []\<rparr>"
  let ?req = "\<lambda>stepName :: string. request h (tokenEndpoint creds)"
  let ?w1 = "after_cold_run h creds r1 r2 r3 w"
  let ?w2 = "?w1\<lparr>reads := reads ?w1 + 3\<rparr>"
  let ?f1 = "blueprintForm creds"
  let ?f2 = "agentFicForm creds (JStr t1)"
  let ?f3 = "userTokenForm creds (userScope_of creds) (JStr t1) (JStr t2)"
  let ?e1 = "entry_for h (reads w + 2) 3600 r1"
  let ?e2 = "entry_for h (reads w + 5) 3600 r2"
  let ?e3 = "entry_for h (reads w + 8) 3600 r3"
  let ?item = "\<lambda>hs ms ts. \<lparr>out_access_token = JStr t3, blueprint_token = JStr t1,
             agent_token = JStr t2, out_scope = userScope_of creds, node_version = ''0.1.6'',
             cache_hits = hs, cache_misses = ms, fetch_times_ms = ts,
             total_fetch_time_ms = sum_list (map snd ts)\<rparr>"
  obtain s1 where run1: "execute_item h ?req ''0.1.6'' creds ?stats0 w
                           = (Inr (?item 0 3 (timings s1)), s1, ?w1)"
      and s1: "hits s1 = 0" "misses s1 = 3"
    using execute_item_cold [of w creds r1 r2 h r3 "''0.1.6''" ?stats0] cold r1 r2 r3 t1 t2 t3
    by auto
  have ex1: "snd (execute h creds 1 w) = ?w1"
    using execute_cold [of w h creds r1 r2 r3] cold r1 r2 r3 t1 t2 by simp
  have k1: "tokenCache ?w1 (generateKey ''blueprint'' ?f1) = Some ?e1"
    using after_cold_run_simps(3) [of h creds r1 r2 r3 w ?f1] by simp
  have k2: "tokenCache ?w1 (generateKey ''agentFic'' ?f2) = Some ?e2"
    using after_cold_run_simps(4) [of h creds r1 r2 r3 w ?f2] t1 by simp
  have k3: "tokenCache ?w1 (generateKey ''userToken'' ?f3) = Some ?e3"
    using after_cold_run_simps(5) [of h creds r1 r2 r3 w ?f3] t1 t2 by simp
  have fr: "now_at h (reads ?w1 + k) < expiresAt entry"
    if "tokenCache ?w1 key = Some entry" "k < 3" for key entry k
    using fresh that unfolding ex1 by blast
  have warm: "\<exists>s2. execute_item h ?req ''0.1.6'' creds stats ?w1
                 = (Inr (?item (hits stats + 3) (misses stats) (timings s2)), s2, ?w2)
               \<and> hits s2 = hits stats + 3 \<and> misses s2 = misses stats" for stats
    using execute_item_warm [of ?w1 creds ?e1 h ?e2 ?e3 ?req "''0.1.6''" stats]
      k1 k2 k3 fr [OF k1, of 0] fr [OF k2, of 1] fr [OF k3, of 2] t1 t2 t3
    by (auto simp: entry_for_def)
  obtain s2 where run2: "execute_item h ?req ''0.1.6'' creds ?stats0 ?w1
                           = (Inr (?item 3 0 (timings s2)), s2, ?w2)"
    using warm [of ?stats0] by auto
  obtain s3 where run3: "execute_item h ?req ''0.1.6'' creds s1 ?w1
                           = (Inr (?item 3 3 (timings s3)), s3, ?w2)"
    using warm [of s1] s1 by auto
  have a: "execute h creds 1 w = (Inr [?item 0 3 (timings s1)], ?w1)"
    by (simp add: execute_def execute_with_def run1)
  have b: "execute h creds 1 ?w1 = (Inr [?item 3 0 (timings s2)], ?w2)"
    by (simp add: execute_def execute_with_def run2)
  have c: "execute h creds 2 w
             = (Inr [(?item 0 3 (timings s1))\<lparr>fetch_times_ms := timings s3\<rparr>,
                     ?item 3 3 (timings s3)], ?w2)"
    by (simp add: execute_def execute_with_def numeral_2_eq_2 run1 run3)
  have two_calls: "\<exists>item1 w1 item2 w2.
      execute h creds 1 w = (Inr [item1], w1) \<and> execute h creds 1 w1 = (Inr [item2], w2)
    \<and> length (sent w1) = length (sent w) + 3 \<and> sent w2 = sent w1
    \<and> blueprint_token item1 = JStr t1 \<and> agent_token item1 = JStr t2
    \<and> out_access_token item1 = JStr t3
    \<and> blueprint_token item2 = blueprint_token item1 \<and> agent_token item2 = agent_token item1
    \<and> out_access_token item2 = out_access_token item1
    \<and> cache_hits item1 = 0 \<and> cache_misses item1 = 3
    \<and> cache_hits item2 = 3 \<and> cache_misses item2 = 0
    \<and> cache_hits item1 + cache_hits item2 = 3 \<and> cache_misses item1 + cache_misses item2 = 3"
    apply (rule exI [of _ "?item 0 3 (timings s1)"])
    apply (rule exI [of _ ?w1])
    apply (rule exI [of _ "?item 3 0 (timings s2)"])
    apply (rule exI [of _ ?w2])
    using a b by (simp add: after_cold_run_simps)
  have one_call: "\<exists>item1 item2 w2.
      execute h creds 2 w = (Inr [item1, item2], w2)
    \<and> length (sent w2) = length (sent w) + 3
    \<and> blueprint_token item1 = JStr t1 \<and> agent_token item1 = JStr t2
    \<and> out_access_token item1 = JStr t3
    \<and> blueprint_token item2 = blueprint_token item1 \<and> agent_token item2 = agent_token item1
    \<and> out_access_token item2 = out_access_token item1
    \<and> cache_hits item2 = 3 \<and> cache_misses item2 = 3"
    apply (rule exI [of _ "(?item 0 3 (timings s1))\<lparr>fetch_times_ms := timings s3\<rparr>"])
    apply (rule exI [of _ "?item 3 3 (timings s3)"])
    apply (rule exI [of _ ?w2])
    using c by (simp add: after_cold_run_simps)
  show ?thesis
    using two_calls one_call by (rule conjI)
qed

text \<open>
  The scenario of the specification: credentials B1, S1, A1, U1; the endpoint answers
  \<open>tok1\<close> and \<open>tok2\<close> for 3600 seconds and \<open>tok3\<close> for 1800 seconds; the clock has
  advanced by a few milliseconds at the second run.
\<close>

theorem C7_chain_twice_witness:
  "tokenCache cold = Map.empty
   \<and> httpRequest (host_ex [ok_answer ''tok1'' 3600, ok_answer ''tok2'' 3600, ok_answer ''tok3'' 1800])
        (length (sent cold))
        (request_options
           (host_ex [ok_answer ''tok1'' 3600, ok_answer ''tok2'' 3600, ok_answer ''tok3'' 1800])
           (tokenEndpoint creds_ex) (blueprintForm creds_ex))
       = Inr \<lparr>access_token = JStr ''tok1'', expires_in = Some 3600\<rparr>
   \<and> (\<exists>item1 w1 item2 w2.
        execute (host_ex [ok_answer ''tok1'' 3600, ok_answer ''tok2'' 3600, ok_answer ''tok3'' 1800])
          creds_ex 1 cold = (Inr [item1], w1)
      \<and> execute (host_ex [ok_answer ''tok1'' 3600, ok_answer ''tok2'' 3600, ok_answer ''tok3'' 1800])
          creds_ex 1 w1 = (Inr [item2], w2)
      \<and> length (sent w1) = 3 \<and> sent w2 = sent w1
      \<and> blueprint_token item1 = JStr ''tok1'' \<and> agent_token item1 = JStr ''tok2''
      \<and> out_access_token item1 = JStr ''tok3''
      \<and> blueprint_token item2 = blueprint_token item1 \<and> agent_token item2 = agent_token item1
      \<and> out_access_token item2 = out_access_token item1
      \<and> cache_hits item1 = 0 \<and> cache_misses item1 = 3
      \<and> cache_hits item2 = 3 \<and> cache_misses item2 = 0
      \<and> cache_hits item1 + cache_hits item2 = 3 \<and> cache_misses item1 + cache_misses item2 = 3)
   \<and> (\<exists>item1 item2 w2.
        execute (host_ex [ok_answer ''tok1'' 3600, ok_answer ''tok2'' 3600, ok_answer ''tok3'' 1800])
          creds_ex 2 cold = (Inr [item1, item2], w2)
      \<and> length (sent w2) = 3
      \<and> blueprint_token item1 = JStr ''tok1'' \<and> agent_token item1 = JStr ''tok2''
      \<and> out_access_token item1 = JStr ''tok3''
      \<and> blueprint_token item2 = blueprint_token item1 \<and> agent_token item2 = agent_token item1
      \<and> out_access_token item2 = out_access_token item1
      \<and> cache_hits item2 = 3 \<and> cache_misses item2 = 3)"
proof -
  let ?h = "host_ex [ok_answer ''tok1'' 3600, ok_answer ''tok2'' 3600, ok_answer ''tok3'' 1800]"
  let ?r1 = "\<lparr>access_token = JStr ''tok1'', expires_in = Some 3600\<rparr>"
  let ?r2 = "\<lparr>access_token = JStr ''tok2'', expires_in = Some 3600\<rparr>"
  let ?r3 = "\<lparr>access_token = JStr ''tok3'', expires_in = Some 1800\<rparr>"
  have c: "tokenCache cold = Map.empty"
    by (simp add: cold_simps)
  have r1: "httpRequest ?h (length (sent cold))
              (request_options ?h (tokenEndpoint creds_ex) (blueprintForm creds_ex)) = Inr ?r1"
    by (simp add: host_ex_simps cold_simps answer_def ok_answer_def)
  have r2: "httpRequest ?h (length (sent cold) + 1)
              (request_options ?h (tokenEndpoint creds_ex) (agentFicForm creds_ex (JStr ''tok1'')))
            = Inr ?r2"
    by (simp add: host_ex_simps cold_simps answer_def ok_answer_def)
  have r3: "httpRequest ?h (length (sent cold) + 2)
              (request_options ?h (tokenEndpoint creds_ex)
                 (userTokenForm creds_ex (userScope_of creds_ex) (JStr ''tok1'') (JStr ''tok2'')))
            = Inr ?r3"
    by (simp add: host_ex_simps cold_simps answer_def ok_answer_def)
  have w1: "snd (execute ?h creds_ex 1 cold) = after_cold_run ?h creds_ex ?r1 ?r2 ?r3 cold"
    using execute_cold [of cold ?h creds_ex ?r1 ?r2 ?r3] c r1 r2 r3 by simp
  have fresh: "\<forall>key entry. tokenCache (snd (execute ?h creds_ex 1 cold)) key = Some entry \<longrightarrow>
                 (\<forall>k<3. now_at ?h (reads (snd (execute ?h creds_ex 1 cold)) + k) < expiresAt entry)"
    unfolding w1
    by (auto simp: after_cold_run_def fetched_def entry_for_def or_default_def EXPIRY_BUFFER_def
          host_ex_simps cold_simps split: if_splits)
  have n1: "''tok1'' \<noteq> []" and n2: "''tok2'' \<noteq> []" and n3: "''tok3'' \<noteq> []"
    by simp_all
  have a1: "access_token ?r1 = JStr ''tok1''" and a2: "access_token ?r2 = JStr ''tok2''"
    and a3: "access_token ?r3 = JStr ''tok3''"
    by simp_all
  note t = C7_chain_twice [OF c r1 a1 n1 r2 a2 n2 r3 a3 n3 fresh]
  show ?thesis
    using c r1 t by (simp add: cold_simps)
qed

text \<open>
  The claim as stated fails when a token is not a non-empty string. The endpoint answers the
  \<^verbatim>\<open>blueprint\<close> request with the empty string as \<open>access_token\<close>. The first run, from
  the empty cache, sends three requests and stores three entries, which expire long after
  the clock readings of the second run (9 and later). The second run finds the
  \<^verbatim>\<open>blueprint\<close> entry, but \<^verbatim>\<open>if (cachedToken)\<close> takes the empty string for a miss: it
  sends a fourth request and reports 2 hits and 1 miss.
\<close>

theorem C7_empty_token_counterexample:
  "tokenCache cold = Map.empty
   \<and> length (sent (snd (execute empty_token_host creds_ex 1 cold))) = 3
   \<and> reads (snd (execute empty_token_host creds_ex 1 cold)) = 9
   \<and> tokenCache (snd (execute empty_token_host creds_ex 1 cold))
       = [generateKey ''blueprint'' (blueprintForm creds_ex)
            \<mapsto> \<lparr>token = JStr '''', expiresAt = 3420002\<rparr>,
          generateKey ''agentFic'' (agentFicForm creds_ex (JStr ''''))
            \<mapsto> \<lparr>token = JStr ''tok2'', expiresAt = 3420005\<rparr>,
          generateKey ''userToken''
              (userTokenForm creds_ex (userScope_of creds_ex) (JStr '''') (JStr ''tok2''))
            \<mapsto> \<lparr>token = JStr ''tok3'', expiresAt = 3420008\<rparr>]
   \<and> fst (execute empty_token_host creds_ex 1 (snd (execute empty_token_host creds_ex 1 cold)))
       = Inr [\<lparr>out_access_token = JStr ''tok3'', blueprint_token = JStr '''',
               agent_token = JStr ''tok2'', out_scope = DEFAULT_SCOPE, node_version = ''0.1.6'',
               cache_hits = 2, cache_misses = 1,
               fetch_times_ms = [(''blueprint'', 1), (''agentFic'', 0), (''userToken'', 0)],
               total_fetch_time_ms = 1\<rparr>]
   \<and> length (sent (snd (execute empty_token_host creds_ex 1
                           (snd (execute empty_token_host creds_ex 1 cold))))) = 4"
proof -
  let ?h = "empty_token_host"
  let ?r1 = "\<lparr>access_token = JStr '''', expires_in = Some 3600\<rparr>"
  let ?r2 = "\<lparr>access_token = JStr ''tok2'', expires_in = Some 3600\<rparr>"
  let ?r3 = "\<lparr>access_token = JStr ''tok3'', expires_in = Some 3600\<rparr>"
  let ?w1 = "after_cold_run ?h creds_ex ?r1 ?r2 ?r3 cold"
  have hr: "httpRequest ?h n options =
              answer [ok_answer '''' 3600, ok_answer ''tok2'' 3600, ok_answer ''tok3'' 3600,
                      ok_answer '''' 3600] n options" for n options
    by (simp add: empty_token_host_def host_ex_simps)
  have hn: "now_at ?h n = int n" for n
    by (simp add: empty_token_host_def host_ex_simps)
  have c: "tokenCache cold = Map.empty"
    by (simp add: cold_simps)
  have w1: "snd (execute ?h creds_ex 1 cold) = ?w1"
    by (rule execute_cold) (simp_all add: cold_simps hr answer_def ok_answer_def)
  have cache1: "tokenCache ?w1
       = [generateKey ''blueprint'' (blueprintForm creds_ex)
            \<mapsto> \<lparr>token = JStr '''', expiresAt = 3420002\<rparr>,
          generateKey ''agentFic'' (agentFicForm creds_ex (JStr ''''))
            \<mapsto> \<lparr>token = JStr ''tok2'', expiresAt = 3420005\<rparr>,
          generateKey ''userToken''
              (userTokenForm creds_ex (userScope_of creds_ex) (JStr '''') (JStr ''tok2''))
            \<mapsto> \<lparr>token = JStr ''tok3'', expiresAt = 3420008\<rparr>]"
    by (simp add: after_cold_run_def fetched_def entry_for_def or_default_def EXPIRY_BUFFER_def
          cold_simps hn)
  let ?ep = "tokenEndpoint creds_ex"
  let ?f1 = "blueprintForm creds_ex"
  let ?f2 = "agentFicForm creds_ex (JStr '''')"
  let ?f3 = "userTokenForm creds_ex (userScope_of creds_ex) (JStr '''') (JStr ''tok2'')"
  let ?s0 = "\<lparr>hits = 0, misses = 0, timings = []\<rparr>"
  let ?wa = "?w1\<lparr>reads := Suc (reads ?w1)\<rparr>"
  let ?wb = "fetched ?h ?ep ''blueprint'' ?f1 3600 ?r1 ?wa"
  let ?wc = "?wb\<lparr>reads := Suc (reads ?wb)\<rparr>"
  let ?wd = "?wc\<lparr>reads := Suc (reads ?wc)\<rparr>"
  let ?sb = "missed ?h ''blueprint'' ?wa ?s0"
  let ?sc = "hit ''agentFic'' ?sb"
  let ?sd = "hit ''userToken'' ?sc"
  have rd1: "reads ?w1 = 9" and st1: "length (sent ?w1) = 3"
    by (simp_all add: after_cold_run_simps cold_simps)
  have get1: "tokenCache_get ?h ''blueprint'' ?f1 ?w1 = (JStr '''', ?wa)"
    using tokenCache_get_fresh [of ?w1 "''blueprint''" ?f1
            "\<lparr>token = JStr '''', expiresAt = 3420002\<rparr>" ?h]
    by (simp add: cache1 step_keys_differ rd1 hn)
  have m: "\<not> truthy (fst (tokenCache_get ?h ''blueprint'' ?f1 ?w1))"
    by (simp add: get1)
  have r4: "httpRequest ?h (length (sent ?w1)) (request_options ?h ?ep ?f1) = Inr ?r1"
    by (simp add: st1 hr answer_def ok_answer_def)
  have g1: "getOrFetchToken ?h (request ?h ?ep) ''blueprint'' ?f1 3600 ?s0 ?w1
              = (Inr (JStr ''''), ?sb, ?wb)"
    using getOrFetchToken_refetched [OF m r4, of 3600 ?s0] by (simp add: get1)
  have g2: "getOrFetchToken ?h (request ?h ?ep) ''agentFic'' ?f2 3600 ?sb ?wb
              = (Inr (JStr ''tok2''), ?sc, ?wc)"
    using getOrFetchToken_hit [of ?wb "''agentFic''" ?f2
            "\<lparr>token = JStr ''tok2'', expiresAt = 3420005\<rparr>" ?h "request ?h ?ep" 3600 ?sb]
    by (simp add: fetched_simps cache1 step_keys_differ rd1 hn)
  have g3: "getOrFetchToken ?h (request ?h ?ep) ''userToken'' ?f3 3600 ?sc ?wc
              = (Inr (JStr ''tok3''), ?sd, ?wd)"
    using getOrFetchToken_hit [of ?wc "''userToken''" ?f3
            "\<lparr>token = JStr ''tok3'', expiresAt = 3420008\<rparr>" ?h "request ?h ?ep" 3600 ?sc]
    by (simp add: fetched_simps cache1 step_keys_differ rd1 hn)
  have sc: "userScope_of creds_ex = DEFAULT_SCOPE"
    by (simp add: userScope_of_def creds_ex_def)
  have tm: "timings ?sd = [(''blueprint'', 1), (''agentFic'', 0), (''userToken'', 0)]"
    by (simp add: hit_def missed_def rd1 hn)
  have hm: "hits ?sd = 2" "misses ?sd = 1"
    by (simp_all add: hit_def missed_def)
  have item: "execute_item ?h (\<lambda>stepName. request ?h ?ep) ''0.1.6'' creds_ex ?s0 ?w1
       = (Inr \<lparr>out_access_token = JStr ''tok3'', blueprint_token = JStr '''',
               agent_token = JStr ''tok2'', out_scope = DEFAULT_SCOPE, node_version = ''0.1.6'',
               cache_hits = 2, cache_misses = 1,
               fetch_times_ms = [(''blueprint'', 1), (''agentFic'', 0), (''userToken'', 0)],
               total_fetch_time_ms = 1\<rparr>, ?sd, ?wd)"
    unfolding execute_item_def Let_def g1 prod.case sum.case g2 g3
    by (simp add: tm hm sc)
  have run2: "execute ?h creds_ex 1 ?w1
       = (Inr [\<lparr>out_access_token = JStr ''tok3'', blueprint_token = JStr '''',
               agent_token = JStr ''tok2'', out_scope = DEFAULT_SCOPE, node_version = ''0.1.6'',
               cache_hits = 2, cache_misses = 1,
               fetch_times_ms = [(''blueprint'', 1), (''agentFic'', 0), (''userToken'', 0)],
               total_fetch_time_ms = 1\<rparr>], ?wd)"
    unfolding execute_def execute_with_def One_nat_def execute_loop.simps item
    by (simp add: tm)
  have st2: "length (sent ?wd) = 4"
    by (simp add: fetched_simps st1)
  show ?thesis
    unfolding w1 run2 fst_conv snd_conv
    using c rd1 st1 cache1 st2 by blast
qed

section \<open>The default lifetime\<close>

lemma stored_lifetime:
  assumes "\<not> truthy (fst (tokenCache_get h kind form w))"
      and "httpRequest h (length (sent w)) (request_options h endpoint form) = Inr response"
      and "or_default (expires_in response) d = n"
  shows "tokenCache (snd (snd (getOrFetchToken h (request h endpoint) kind form d stats w)))
           (generateKey kind form)
         = Some \<lparr>token = access_token response,
                 expiresAt = now_at h (reads (snd (tokenCache_get h kind form w)) + 2)
                             + (n - 180) * 1000\<rparr>"
  using getOrFetchToken_refetched [OF assms(1,2), of d stats] assms(3)
  by (simp add: fetched_simps entry_for_def EXPIRY_BUFFER_def)



text \<open>
  C9. A step fetches and the response has \<open>expires_in = 0\<close>. The value being falsy, the
  lifetime is the default, as when the field is absent: the entry expires
  \<open>(3600 - 180) * 1000\<close> milliseconds after the clock reading of \<^verbatim>\<open>tokenCache.set\<close>, so
  it is not expired when it is written, and a \<open>get\<close> less than 3420 seconds after that
  reading returns the token.
\<close>

theorem C9_zero_expires_in:
  fixes h :: host and w :: world and kind :: string and form :: form
    and endpoint :: string and stats :: cacheStats
  defines "stored_at \<equiv> now_at h (reads (snd (tokenCache_get h kind form w)) + 2)"
  defines "c' \<equiv> tokenCache (snd (snd (getOrFetchToken h (request h endpoint) kind form 3600 stats w)))"
  assumes "\<not> truthy (fst (tokenCache_get h kind form w))"
      and "httpRequest h (length (sent w)) (request_options h endpoint form) = Inr response"
      and "expires_in response = Some 0"
  shows "or_default (expires_in response) 3600 = or_default None 3600
       \<and> c' (generateKey kind form)
           = Some \<lparr>token = access_token response, expiresAt = stored_at + (3600 - 180) * 1000\<rparr>
       \<and> TokenCache_get stored_at kind form c' = (access_token response, c')
       \<and> (\<forall>now. now < stored_at + 3420 * 1000 \<longrightarrow>
            TokenCache_get now kind form c' = (access_token response, c'))"
proof -
  have d: "or_default (expires_in response) 3600 = 3600"
    using assms(5) by (simp add: or_default_def)
  from stored_lifetime [OF assms(3,4) d, of stats]
  have e: "c' (generateKey kind form)
             = Some \<lparr>token = access_token response, expiresAt = stored_at + 3420000\<rparr>"
    by (simp add: c'_def stored_at_def)
  show ?thesis
    using d e by (simp add: TokenCache_get_def or_default_def)
qed

theorem C9_zero_expires_in_witness:
  "\<not> truthy (fst (tokenCache_get (host_ex [ok_answer ''tok1'' 0]) ''blueprint''
                    (blueprintForm creds_ex) cold))
   \<and> httpRequest (host_ex [ok_answer ''tok1'' 0]) (length (sent cold))
        (request_options (host_ex [ok_answer ''tok1'' 0]) (tokenEndpoint creds_ex)
           (blueprintForm creds_ex))
       = Inr \<lparr>access_token = JStr ''tok1'', expires_in = Some 0\<rparr>
   \<and> tokenCache (snd (snd (getOrFetchToken (host_ex [ok_answer ''tok1'' 0])
           (request (host_ex [ok_answer ''tok1'' 0]) (tokenEndpoint creds_ex))
           ''blueprint'' (blueprintForm creds_ex) 3600 \<lparr>hits = 0, misses = 0, timings = []\<rparr>
           cold)))
        (generateKey ''blueprint'' (blueprintForm creds_ex))
       = Some \<lparr>token = JStr ''tok1'', expiresAt = 3420002\<rparr>
   \<and> fst (TokenCache_get 2 ''blueprint'' (blueprintForm creds_ex)
        (tokenCache (snd (snd (getOrFetchToken (host_ex [ok_answer ''tok1'' 0])
           (request (host_ex [ok_answer ''tok1'' 0]) (tokenEndpoint creds_ex))
           ''blueprint'' (blueprintForm creds_ex) 3600 \<lparr>hits = 0, misses = 0, timings = []\<rparr>
           cold)))))
       = JStr ''tok1''"
proof -
  let ?r = "\<lparr>access_token = JStr ''tok1'', expires_in = Some 0\<rparr>"
  let ?h = "host_ex [ok_answer ''tok1'' 0]"
  let ?f = "blueprintForm creds_ex"
  have m: "\<not> truthy (fst (tokenCache_get ?h ''blueprint'' ?f cold))"
    by (simp add: tokenCache_get_absent cold_simps)
  have r: "httpRequest ?h (length (sent cold)) (request_options ?h (tokenEndpoint creds_ex) ?f)
             = Inr ?r"
    by (simp add: host_ex_simps cold_simps answer_def ok_answer_def)
  have a: "expires_in ?r = Some 0" by simp
  have s: "now_at ?h (reads (snd (tokenCache_get ?h ''blueprint'' ?f cold)) + 2) = 2"
    by (simp add: tokenCache_get_absent cold_simps host_ex_simps)
  note t = C9_zero_expires_in [OF m r a, where stats = "\<lparr>hits = 0, misses = 0, timings = []\<rparr>",
             unfolded s]
  show ?thesis
    using m r t by simp
qed

end
